theory Spec2Isabelle
  imports Complex_Main
begin

section \<open>Python values\<close>

text \<open>
  A Python \<^verbatim>\<open>str\<close> is a sequence of Unicode code points, so a string is a list of
  code points and \<^verbatim>\<open>len\<close> is \<^const>\<open>length\<close>. ASCII literals of the source are
  written with \<^verbatim>\<open>lit\<close>.
\<close>

type_synonym pystr = "nat list"

definition lit :: "string \<Rightarrow> pystr" where
  "lit s = map of_char s"

text \<open>\<^verbatim>\<open>s.startswith(p)\<close> and \<^verbatim>\<open>sub in s\<close>.\<close>

fun startswith :: "pystr \<Rightarrow> pystr \<Rightarrow> bool" where
  "startswith s [] = True"
| "startswith [] (p # ps) = False"
| "startswith (c # cs) (p # ps) = (c = p \<and> startswith cs ps)"

fun str_contains :: "pystr \<Rightarrow> pystr \<Rightarrow> bool" where
  "str_contains sub [] = (sub = [])"
| "str_contains sub (c # cs) = (startswith (c # cs) sub \<or> str_contains sub cs)"

text \<open>The values \<^verbatim>\<open>json.loads\<close> produces.\<close>

datatype json =
    JNull
  | JBool bool
  | JInt int
  | JFloat real
  | JStr pystr
  | JArr "json list"
  | JObj "(pystr \<times> json) list"

text \<open>A location inside a validated object, as pydantic reports it.\<close>

datatype loc = Key string | Idx nat

text \<open>The exceptions that the modelled code raises or catches.\<close>

datatype exn =
    FileNotFoundError pystr
  | ValueError pystr
  | JSONDecodeError pystr
  | TypeError pystr
  | ValidationError "loc list list"
  | RemoteCallFailed pystr
  | OtherError pystr

text \<open>The regular-expression tables of \<^verbatim>\<open>OCRTextParser\<close> for the header fields.\<close>

datatype pattern_table =
    PATIENT_NAME_PATTERNS
  | PATIENT_AGE_PATTERNS
  | PATIENT_GENDER_PATTERNS
  | PATIENT_ADDRESS_PATTERNS
  | DOCTOR_NAME_PATTERNS
  | HOSPITAL_PATTERNS
  | DEPARTMENT_PATTERNS
  | DIAGNOSIS_PATTERNS
  | DATE_PATTERNS
  | PRESCRIPTION_NUMBER_PATTERNS

text \<open>
  What the code takes from the Python runtime and from libraries that are not part of
  the repository: the Unicode tables behind \<^verbatim>\<open>\s\<close>, \<^verbatim>\<open>\d\<close>,
  \<^verbatim>\<open>re.IGNORECASE\<close> and \<^verbatim>\<open>str.lower\<close>, \<^verbatim>\<open>pathlib\<close>, \<^verbatim>\<open>json.loads\<close>,
  pydantic's conversion of an input value to a field's type, and \<^verbatim>\<open>re.search\<close> on
  the header patterns (table, index in the table, text; the first group of the match).
\<close>

record pylib =
  is_space :: "nat \<Rightarrow> bool"
  is_digit :: "nat \<Rightarrow> bool"
  ci_eq :: "nat \<Rightarrow> nat \<Rightarrow> bool"
  str_lower :: "pystr \<Rightarrow> pystr"
  path_parent_name :: "pystr \<Rightarrow> pystr"
  path_name :: "pystr \<Rightarrow> pystr"
  path_str :: "pystr \<Rightarrow> pystr"
  json_loads :: "pystr \<Rightarrow> exn + json"
  coerce_str :: "json \<Rightarrow> pystr option"
  coerce_float :: "json \<Rightarrow> real option"
  coerce_bool :: "json \<Rightarrow> bool option"
  coerce_int :: "json \<Rightarrow> int option"
  str_of_exn :: "exn \<Rightarrow> pystr"
  header_search :: "pattern_table \<Rightarrow> nat \<Rightarrow> pystr \<Rightarrow> pystr option"
  title_match :: "pystr \<Rightarrow> pystr option"

section \<open>Document classifier and confidence router\<close>

text \<open>\<^verbatim>\<open>PrescriptionProcessor.classify_prescription_type\<close>.\<close>

definition classify_prescription_type :: "pylib \<Rightarrow> pystr \<Rightarrow> real \<Rightarrow> pystr" where
  "classify_prescription_type lib image_path ocr_confidence =
     (let parent_folder = str_lower lib (path_parent_name lib image_path) in
      if str_contains (lit ''handwrit'') parent_folder then lit ''handwritten''
      else if str_contains (lit ''print'') parent_folder then lit ''printed''
      else if str_contains (lit ''mixed'') parent_folder then lit ''mixed''
      else if str_contains (lit ''screen'') parent_folder
              \<or> str_contains (lit ''digital'') parent_folder then lit ''digital''
      else if ocr_confidence < 0.5 then lit ''handwritten''
      else if ocr_confidence < 0.7 then lit ''mixed''
      else lit ''printed'')"

definition HANDWRITING_CONFIDENCE_THRESHOLD :: real where
  "HANDWRITING_CONFIDENCE_THRESHOLD = 0.6"

definition VISION_ALWAYS_FOR_SIGNATURES :: bool where
  "VISION_ALWAYS_FOR_SIGNATURES = True"

text \<open>\<^verbatim>\<open>PrescriptionProcessor.needs_vision_enhancement\<close>.\<close>

definition needs_vision_enhancement :: "real \<Rightarrow> pystr \<Rightarrow> bool" where
  "needs_vision_enhancement ocr_confidence prescription_type =
     (if prescription_type = lit ''handwritten'' then True
      else if prescription_type = lit ''mixed'' then True
      else if ocr_confidence < HANDWRITING_CONFIDENCE_THRESHOLD then True
      else False)"

datatype tier = LocalFallback | TextAnalysis | ImageAnalysis

datatype ('v, 't) strategy = UseVision 'v | UseLLMText 't | UseRegex

fun tier_of :: "('v, 't) strategy \<Rightarrow> tier" where
  "tier_of (UseVision v) = ImageAnalysis"
| "tier_of (UseLLMText c) = TextAnalysis"
| "tier_of UseRegex = LocalFallback"

text \<open>
  The branch that \<^verbatim>\<open>PrescriptionProcessor.process\<close> takes for the primary
  extraction (stage 2): \<^verbatim>\<open>if use_vision and self.vision\<close>, else
  \<^verbatim>\<open>if self.llm_text\<close>, else the regular-expression parser. An extractor that
  failed to initialise is \<^verbatim>\<open>None\<close>.
\<close>

definition choose_strategy ::
  "bool \<Rightarrow> real \<Rightarrow> pystr \<Rightarrow> 'v option \<Rightarrow> 't option \<Rightarrow> ('v, 't) strategy" where
  "choose_strategy force_vision ocr_confidence prescription_type vision llm_text =
     (let use_vision = force_vision \<or> needs_vision_enhancement ocr_confidence prescription_type in
      case (if use_vision then vision else None) of
        Some v \<Rightarrow> UseVision v
      | None \<Rightarrow> (case llm_text of Some c \<Rightarrow> UseLLMText c | None \<Rightarrow> UseRegex))"

text \<open>
  The router as the specification words it: five rules, the first that matches wins.
\<close>

definition spec_router :: "real \<Rightarrow> pystr \<Rightarrow> bool \<Rightarrow> bool \<Rightarrow> bool \<Rightarrow> tier" where
  "spec_router confidence doc_type override image_available text_available =
     (if override \<and> image_available then ImageAnalysis
      else if (doc_type = lit ''handwritten'' \<or> doc_type = lit ''mixed'') \<and> image_available
        then ImageAnalysis
      else if confidence < 0.6 \<and> image_available then ImageAnalysis
      else if text_available then TextAnalysis
      else LocalFallback)"

section \<open>Regular expressions\<close>

text \<open>
  The fragment of Python's \<^verbatim>\<open>re\<close> that the modelled patterns use, with its
  backtracking order: a character class, sequence, ordered alternation, greedy and lazy
  repetition of a character class, a capturing group, and \<^verbatim>\<open>$\<close> (the end of the
  string, or just before a newline that ends it). A match continues with the rest of the
  input and the groups captured so far; the first success in backtracking order wins.
\<close>

datatype rx =
    Chr "nat \<Rightarrow> bool"
  | Eps
  | Seq rx rx
  | Alt rx rx
  | Star "nat \<Rightarrow> bool"
  | LazyStar "nat \<Rightarrow> bool"
  | Grp nat rx
  | Eos

type_synonym caps = "(nat \<times> pystr) list"

fun star_greedy :: "(nat \<Rightarrow> bool) \<Rightarrow> pystr \<Rightarrow> (pystr \<Rightarrow> 'a option) \<Rightarrow> 'a option" where
  "star_greedy p [] k = k []"
| "star_greedy p (c # cs) k =
     (if p c then (case star_greedy p cs k of Some r \<Rightarrow> Some r | None \<Rightarrow> k (c # cs))
      else k (c # cs))"

fun star_lazy :: "(nat \<Rightarrow> bool) \<Rightarrow> pystr \<Rightarrow> (pystr \<Rightarrow> 'a option) \<Rightarrow> 'a option" where
  "star_lazy p [] k = k []"
| "star_lazy p (c # cs) k =
     (case k (c # cs) of
        Some r \<Rightarrow> Some r
      | None \<Rightarrow> if p c then star_lazy p cs k else None)"

primrec rmatch ::
  "rx \<Rightarrow> pystr \<Rightarrow> caps \<Rightarrow> (pystr \<Rightarrow> caps \<Rightarrow> (pystr \<times> caps) option) \<Rightarrow> (pystr \<times> caps) option" where
  "rmatch (Chr p) s cp k = (case s of [] \<Rightarrow> None | c # cs \<Rightarrow> if p c then k cs cp else None)"
| "rmatch Eps s cp k = k s cp"
| "rmatch (Seq a b) s cp k = rmatch a s cp (\<lambda>s' cp'. rmatch b s' cp' k)"
| "rmatch (Alt a b) s cp k =
     (case rmatch a s cp k of Some r \<Rightarrow> Some r | None \<Rightarrow> rmatch b s cp k)"
| "rmatch (Star p) s cp k = star_greedy p s (\<lambda>s'. k s' cp)"
| "rmatch (LazyStar p) s cp k = star_lazy p s (\<lambda>s'. k s' cp)"
| "rmatch (Grp i r) s cp k =
     rmatch r s cp (\<lambda>s' cp'. k s' ((i, take (length s - length s') s) # cp'))"
| "rmatch Eos s cp k = (if s = [] \<or> s = [10] then k s cp else None)"

text \<open>
  \<^verbatim>\<open>re.match\<close>: a match at the start of the string, as the matched text (group 0),
  the rest of the string and the captured groups.
\<close>

definition re_match :: "rx \<Rightarrow> pystr \<Rightarrow> (pystr \<times> pystr \<times> caps) option" where
  "re_match r s =
     (case rmatch r s [] (\<lambda>s' cp. Some (s', cp)) of
        None \<Rightarrow> None
      | Some (s', cp) \<Rightarrow> Some (take (length s - length s') s, s', cp))"

text \<open>\<^verbatim>\<open>re.search\<close>: the leftmost position with a match.\<close>

fun re_search :: "rx \<Rightarrow> pystr \<Rightarrow> (pystr \<times> pystr \<times> caps) option" where
  "re_search r [] = re_match r []"
| "re_search r (c # cs) =
     (case re_match r (c # cs) of Some m \<Rightarrow> Some m | None \<Rightarrow> re_search r cs)"

text \<open>\<^verbatim>\<open>m.group(i)\<close> for \<^verbatim>\<open>i > 0\<close>: \<^verbatim>\<open>None\<close> when the group took no part.\<close>

definition group :: "nat \<Rightarrow> pystr \<times> pystr \<times> caps \<Rightarrow> pystr option" where
  "group i m = map_of (snd (snd m)) i"

definition group0 :: "pystr \<times> pystr \<times> caps \<Rightarrow> pystr" where
  "group0 m = fst m"

text \<open>A literal, a literal under \<^verbatim>\<open>re.IGNORECASE\<close>, an optional part, one or more.\<close>

definition lit_rx :: "pystr \<Rightarrow> rx" where
  "lit_rx s = foldr (\<lambda>c r. Seq (Chr (\<lambda>x. x = c)) r) s Eps"

definition ci_rx :: "pylib \<Rightarrow> pystr \<Rightarrow> rx" where
  "ci_rx lib s = foldr (\<lambda>c r. Seq (Chr (ci_eq lib c)) r) s Eps"

definition Opt :: "rx \<Rightarrow> rx" where
  "Opt r = Alt r Eps"

definition Plus :: "(nat \<Rightarrow> bool) \<Rightarrow> rx" where
  "Plus p = Seq (Chr p) (Star p)"

fun seqs :: "rx list \<Rightarrow> rx" where
  "seqs [] = Eps"
| "seqs (r # rs) = Seq r (seqs rs)"

fun alts :: "rx \<Rightarrow> rx list \<Rightarrow> rx" where
  "alts r [] = r"
| "alts r (q # qs) = Alt r (alts q qs)"

section \<open>Structured-response parser\<close>

text \<open>
  The two patterns of \<^verbatim>\<open>extract_json_from_response\<close>, both compiled with
  \<^verbatim>\<open>re.DOTALL\<close>: a fence of three backquotes, an optional \<^verbatim>\<open>json\<close> tag,
  white space, group 1 (an opening brace, as few characters as possible, a closing
  brace), white space and the closing fence; and an opening brace, as many characters as
  possible, a closing brace.
\<close>

definition fence_rx :: "pylib \<Rightarrow> rx" where
  "fence_rx lib =
     seqs [lit_rx (lit ''```''), Opt (lit_rx (lit ''json'')), Star (is_space lib),
           Grp 1 (seqs [Chr (\<lambda>c. c = 123), LazyStar (\<lambda>c. True), Chr (\<lambda>c. c = 125)]),
           Star (is_space lib), lit_rx (lit ''```'')]"

definition brace_rx :: rx where
  "brace_rx = seqs [Chr (\<lambda>c. c = 123), Star (\<lambda>c. True), Chr (\<lambda>c. c = 125)]"

text \<open>
  \<^verbatim>\<open>LLMExtractor.extract_json_from_response\<close> and
  \<^verbatim>\<open>VisionExtractor.extract_json_from_response\<close> (the same code).
  \<^verbatim>\<open>json.loads(None)\<close> raises \<^verbatim>\<open>TypeError\<close>.
\<close>

definition extract_json_from_response :: "pylib \<Rightarrow> pystr \<Rightarrow> exn + json" where
  "extract_json_from_response lib text =
     (case re_search (fence_rx lib) text of
        Some json_match \<Rightarrow>
          (case group 1 json_match of
             Some g \<Rightarrow> json_loads lib g
           | None \<Rightarrow> Inl (TypeError (lit ''the JSON object must be str, bytes or bytearray, not NoneType'')))
      | None \<Rightarrow>
          (case re_search brace_rx text of
             Some json_match \<Rightarrow> json_loads lib (group0 json_match)
           | None \<Rightarrow> Inl (ValueError (lit ''No valid JSON found in LLM response''))))"

section \<open>Record schema\<close>

text \<open>
  The pydantic models of \<^verbatim>\<open>schema.py\<close>. Fields that share a name across models
  carry the model's name as a prefix, and \<^verbatim>\<open>notes\<close> is \<^verbatim>\<open>prescription_notes\<close>. A \<^verbatim>\<open>PrescriptionType\<close> is a string
  enumeration: its members are equal to their values, and the orchestrator assigns plain
  strings to the field, so the field holds the value.
\<close>

definition PrescriptionType_values :: "pystr list" where
  "PrescriptionType_values = [lit ''handwritten'', lit ''printed'', lit ''mixed'', lit ''digital'']"

record SignatureInfo =
  is_present :: bool
  signer_name :: "pystr option"
  signer_title :: "pystr option"
  location :: "pystr option"
  is_legible :: "bool option"
  confidence :: "real option"

record MedicationItem =
  name :: pystr
  dosage :: "pystr option"
  quantity :: "pystr option"
  frequency :: "pystr option"
  duration :: "pystr option"
  instructions :: "pystr option"
  is_handwritten :: "bool option"

record PatientInfo =
  patient_name :: "pystr option"
  patient_age :: "pystr option"
  patient_gender :: "pystr option"
  patient_address :: "pystr option"
  patient_phone :: "pystr option"
  patient_id :: "pystr option"

record DoctorInfo =
  doctor_name :: "pystr option"
  doctor_title :: "pystr option"
  doctor_specialty :: "pystr option"
  doctor_license_number :: "pystr option"
  doctor_phone :: "pystr option"
  doctor_info_signature :: "SignatureInfo option"

record HospitalInfo =
  hospital_name :: "pystr option"
  hospital_department :: "pystr option"
  hospital_address :: "pystr option"
  hospital_phone :: "pystr option"
  hospital_pharmacy_counter :: "pystr option"

record HandwritingAnalysis =
  has_handwritten_content :: bool
  handwritten_sections :: "pystr list"
  handwriting_ocr_confidence :: "real option"
  llm_interpretation :: "pystr option"
  unclear_text :: "pystr list"

record ExtractedPrescription =
  document_type :: pystr
  prescription_type :: "pystr option"
  prescription_number :: "pystr option"
  barcode :: "pystr option"
  issue_date :: "pystr option"
  patient :: PatientInfo
  doctor :: DoctorInfo
  hospital :: HospitalInfo
  diagnosis :: "pystr option"
  medications :: "MedicationItem list"
  doctor_signature :: "SignatureInfo option"
  handwriting_analysis :: "HandwritingAnalysis option"
  prescription_notes :: "pystr option"
  total_items :: "int option"
  extraction_method :: "pystr option"
  confidence_score :: "real option"
  ocr_confidence :: "real option"
  llm_enhanced :: bool
  ocr_text :: "pystr option"

text \<open>The models built from their defaults alone.\<close>

definition SignatureInfo_default :: SignatureInfo where
  "SignatureInfo_default =
     \<lparr>is_present = False, signer_name = None, signer_title = None, location = None,
      is_legible = None, confidence = None\<rparr>"

definition PatientInfo_default :: PatientInfo where
  "PatientInfo_default =
     \<lparr>patient_name = None, patient_age = None, patient_gender = None, patient_address = None,
      patient_phone = None, patient_id = None\<rparr>"

definition DoctorInfo_default :: DoctorInfo where
  "DoctorInfo_default =
     \<lparr>doctor_name = None, doctor_title = None, doctor_specialty = None,
      doctor_license_number = None, doctor_phone = None, doctor_info_signature = None\<rparr>"

definition HospitalInfo_default :: HospitalInfo where
  "HospitalInfo_default =
     \<lparr>hospital_name = None, hospital_department = None, hospital_address = None,
      hospital_phone = None, hospital_pharmacy_counter = None\<rparr>"

definition HandwritingAnalysis_default :: HandwritingAnalysis where
  "HandwritingAnalysis_default =
     \<lparr>has_handwritten_content = False, handwritten_sections = [],
      handwriting_ocr_confidence = None, llm_interpretation = None, unclear_text = []\<rparr>"

definition ExtractedPrescription_default :: ExtractedPrescription where
  "ExtractedPrescription_default =
     \<lparr>document_type = lit ''prescription'', prescription_type = None,
      prescription_number = None, barcode = None, issue_date = None,
      patient = PatientInfo_default, doctor = DoctorInfo_default,
      hospital = HospitalInfo_default, diagnosis = None, medications = [],
      doctor_signature = None, handwriting_analysis = None, prescription_notes = None,
      total_items = None, extraction_method = None, confidence_score = None,
      ocr_confidence = None, llm_enhanced = False, ocr_text = None\<rparr>"

section \<open>Validation of a parsed response against the schema\<close>

text \<open>
  The result of validating one field: the locations of the errors found, or the value.
  A model is valid when none of its fields has an error; otherwise pydantic raises one
  \<^verbatim>\<open>ValidationError\<close> that lists every error.
\<close>

type_synonym 'a validated = "loc list list + 'a"

definition errors_of :: "'a validated \<Rightarrow> loc list list" where
  "errors_of r = (case r of Inl es \<Rightarrow> es | Inr v \<Rightarrow> [])"

definition at_loc :: "loc \<Rightarrow> 'a validated \<Rightarrow> 'a validated" where
  "at_loc l r = (case r of Inl es \<Rightarrow> Inl (map ((#) l) es) | Inr v \<Rightarrow> Inr v)"

type_synonym pydict = "(pystr \<times> json) list"

text \<open>
  A field \<^verbatim>\<open>Optional[T] = None\<close>: absent or \<^verbatim>\<open>null\<close> is \<^verbatim>\<open>None\<close>,
  any other input is converted to \<^verbatim>\<open>T\<close>.
\<close>

definition optional_field :: "(json \<Rightarrow> 'a option) \<Rightarrow> string \<Rightarrow> pydict \<Rightarrow> 'a option validated" where
  "optional_field conv k d =
     (case map_of d (lit k) of
        None \<Rightarrow> Inr None
      | Some JNull \<Rightarrow> Inr None
      | Some v \<Rightarrow> (case conv v of None \<Rightarrow> Inl [[Key k]] | Some x \<Rightarrow> Inr (Some x)))"

text \<open>A field \<^verbatim>\<open>T = default\<close>: \<^verbatim>\<open>null\<close> is an error.\<close>

definition default_field :: "(json \<Rightarrow> 'a option) \<Rightarrow> string \<Rightarrow> 'a \<Rightarrow> pydict \<Rightarrow> 'a validated" where
  "default_field conv k dflt d =
     (case map_of d (lit k) of
        None \<Rightarrow> Inr dflt
      | Some JNull \<Rightarrow> Inl [[Key k]]
      | Some v \<Rightarrow> (case conv v of None \<Rightarrow> Inl [[Key k]] | Some x \<Rightarrow> Inr x))"

text \<open>A required field \<^verbatim>\<open>T\<close>.\<close>

definition required_field :: "(json \<Rightarrow> 'a option) \<Rightarrow> string \<Rightarrow> pydict \<Rightarrow> 'a validated" where
  "required_field conv k d =
     (case map_of d (lit k) of
        None \<Rightarrow> Inl [[Key k]]
      | Some JNull \<Rightarrow> Inl [[Key k]]
      | Some v \<Rightarrow> (case conv v of None \<Rightarrow> Inl [[Key k]] | Some x \<Rightarrow> Inr x))"

text \<open>
  A field \<^verbatim>\<open>Optional[float] = Field(default=None, ge=0.0, le=1.0)\<close>: the converted
  number is checked against both bounds.
\<close>

definition unit_interval_field :: "pylib \<Rightarrow> string \<Rightarrow> pydict \<Rightarrow> real option validated" where
  "unit_interval_field lib k d =
     (case optional_field (coerce_float lib) k d of
        Inl es \<Rightarrow> Inl es
      | Inr None \<Rightarrow> Inr None
      | Inr (Some x) \<Rightarrow> if 0 \<le> x \<and> x \<le> 1 then Inr (Some x) else Inl [[Key k]])"

text \<open>A field \<^verbatim>\<open>Optional[PrescriptionType]\<close>: one of the values of the enumeration.\<close>

definition conv_PrescriptionType :: "json \<Rightarrow> pystr option" where
  "conv_PrescriptionType v =
     (case v of JStr s \<Rightarrow> if s \<in> set PrescriptionType_values then Some s else None | _ \<Rightarrow> None)"

text \<open>A field \<^verbatim>\<open>List[T]\<close> with \<^verbatim>\<open>default_factory=list\<close>, item by item.\<close>

fun validate_items :: "(json \<Rightarrow> 'a validated) \<Rightarrow> nat \<Rightarrow> json list \<Rightarrow> 'a list validated" where
  "validate_items f i [] = Inr []"
| "validate_items f i (x # xs) =
     (case (at_loc (Idx i) (f x), validate_items f (Suc i) xs) of
        (Inr v, Inr vs) \<Rightarrow> Inr (v # vs)
      | (r, rs) \<Rightarrow> Inl (errors_of r @ errors_of rs))"

definition list_field :: "(json \<Rightarrow> 'a validated) \<Rightarrow> string \<Rightarrow> pydict \<Rightarrow> 'a list validated" where
  "list_field f k d =
     (case map_of d (lit k) of
        None \<Rightarrow> Inr []
      | Some (JArr xs) \<Rightarrow> at_loc (Key k) (validate_items f 0 xs)
      | Some v \<Rightarrow> Inl [[Key k]])"

definition str_item :: "pylib \<Rightarrow> json \<Rightarrow> pystr validated" where
  "str_item lib v = (case v of JNull \<Rightarrow> Inl [[]] | _ \<Rightarrow>
     (case coerce_str lib v of None \<Rightarrow> Inl [[]] | Some s \<Rightarrow> Inr s))"

text \<open>A nested model: an object is validated, anything else is an error.\<close>

definition model_item :: "(pydict \<Rightarrow> 'a validated) \<Rightarrow> json \<Rightarrow> 'a validated" where
  "model_item f v = (case v of JObj d \<Rightarrow> f d | _ \<Rightarrow> Inl [[]])"

definition optional_model :: "(pydict \<Rightarrow> 'a validated) \<Rightarrow> string \<Rightarrow> pydict \<Rightarrow> 'a option validated" where
  "optional_model f k d =
     (case map_of d (lit k) of
        None \<Rightarrow> Inr None
      | Some JNull \<Rightarrow> Inr None
      | Some v \<Rightarrow> (case at_loc (Key k) (model_item f v) of Inl es \<Rightarrow> Inl es | Inr x \<Rightarrow> Inr (Some x)))"

definition default_model :: "(pydict \<Rightarrow> 'a validated) \<Rightarrow> string \<Rightarrow> 'a \<Rightarrow> pydict \<Rightarrow> 'a validated" where
  "default_model f k dflt d =
     (case map_of d (lit k) of
        None \<Rightarrow> Inr dflt
      | Some v \<Rightarrow> at_loc (Key k) (model_item f v))"

definition validate_SignatureInfo :: "pylib \<Rightarrow> pydict \<Rightarrow> SignatureInfo validated" where
  "validate_SignatureInfo lib d =
     (let r1 = default_field (coerce_bool lib) ''is_present'' False d;
          r2 = optional_field (coerce_str lib) ''signer_name'' d;
          r3 = optional_field (coerce_str lib) ''signer_title'' d;
          r4 = optional_field (coerce_str lib) ''location'' d;
          r5 = optional_field (coerce_bool lib) ''is_legible'' d;
          r6 = unit_interval_field lib ''confidence'' d
      in if isl r1 \<or> isl r2 \<or> isl r3 \<or> isl r4 \<or> isl r5 \<or> isl r6
         then Inl (errors_of r1 @ errors_of r2 @ errors_of r3 @ errors_of r4 @ errors_of r5
                   @ errors_of r6)
         else Inr \<lparr>is_present = projr r1, signer_name = projr r2, signer_title = projr r3,
                   location = projr r4, is_legible = projr r5, confidence = projr r6\<rparr>)"

definition validate_MedicationItem :: "pylib \<Rightarrow> pydict \<Rightarrow> MedicationItem validated" where
  "validate_MedicationItem lib d =
     (let r1 = required_field (coerce_str lib) ''name'' d;
          r2 = optional_field (coerce_str lib) ''dosage'' d;
          r3 = optional_field (coerce_str lib) ''quantity'' d;
          r4 = optional_field (coerce_str lib) ''frequency'' d;
          r5 = optional_field (coerce_str lib) ''duration'' d;
          r6 = optional_field (coerce_str lib) ''instructions'' d;
          r7 = optional_field (coerce_bool lib) ''is_handwritten'' d
      in if isl r1 \<or> isl r2 \<or> isl r3 \<or> isl r4 \<or> isl r5 \<or> isl r6 \<or> isl r7
         then Inl (errors_of r1 @ errors_of r2 @ errors_of r3 @ errors_of r4 @ errors_of r5
                   @ errors_of r6 @ errors_of r7)
         else Inr \<lparr>name = projr r1, dosage = projr r2, quantity = projr r3,
                   frequency = projr r4, duration = projr r5, instructions = projr r6,
                   is_handwritten = projr r7\<rparr>)"

definition validate_PatientInfo :: "pylib \<Rightarrow> pydict \<Rightarrow> PatientInfo validated" where
  "validate_PatientInfo lib d =
     (let r1 = optional_field (coerce_str lib) ''name'' d;
          r2 = optional_field (coerce_str lib) ''age'' d;
          r3 = optional_field (coerce_str lib) ''gender'' d;
          r4 = optional_field (coerce_str lib) ''address'' d;
          r5 = optional_field (coerce_str lib) ''phone'' d;
          r6 = optional_field (coerce_str lib) ''patient_id'' d
      in if isl r1 \<or> isl r2 \<or> isl r3 \<or> isl r4 \<or> isl r5 \<or> isl r6
         then Inl (errors_of r1 @ errors_of r2 @ errors_of r3 @ errors_of r4 @ errors_of r5
                   @ errors_of r6)
         else Inr \<lparr>patient_name = projr r1, patient_age = projr r2, patient_gender = projr r3,
                   patient_address = projr r4, patient_phone = projr r5, patient_id = projr r6\<rparr>)"

definition validate_DoctorInfo :: "pylib \<Rightarrow> pydict \<Rightarrow> DoctorInfo validated" where
  "validate_DoctorInfo lib d =
     (let r1 = optional_field (coerce_str lib) ''name'' d;
          r2 = optional_field (coerce_str lib) ''title'' d;
          r3 = optional_field (coerce_str lib) ''specialty'' d;
          r4 = optional_field (coerce_str lib) ''license_number'' d;
          r5 = optional_field (coerce_str lib) ''phone'' d;
          r6 = optional_model (validate_SignatureInfo lib) ''signature'' d
      in if isl r1 \<or> isl r2 \<or> isl r3 \<or> isl r4 \<or> isl r5 \<or> isl r6
         then Inl (errors_of r1 @ errors_of r2 @ errors_of r3 @ errors_of r4 @ errors_of r5
                   @ errors_of r6)
         else Inr \<lparr>doctor_name = projr r1, doctor_title = projr r2, doctor_specialty = projr r3,
                   doctor_license_number = projr r4, doctor_phone = projr r5,
                   doctor_info_signature = projr r6\<rparr>)"

definition validate_HospitalInfo :: "pylib \<Rightarrow> pydict \<Rightarrow> HospitalInfo validated" where
  "validate_HospitalInfo lib d =
     (let r1 = optional_field (coerce_str lib) ''name'' d;
          r2 = optional_field (coerce_str lib) ''department'' d;
          r3 = optional_field (coerce_str lib) ''address'' d;
          r4 = optional_field (coerce_str lib) ''phone'' d;
          r5 = optional_field (coerce_str lib) ''pharmacy_counter'' d
      in if isl r1 \<or> isl r2 \<or> isl r3 \<or> isl r4 \<or> isl r5
         then Inl (errors_of r1 @ errors_of r2 @ errors_of r3 @ errors_of r4 @ errors_of r5)
         else Inr \<lparr>hospital_name = projr r1, hospital_department = projr r2,
                   hospital_address = projr r3, hospital_phone = projr r4,
                   hospital_pharmacy_counter = projr r5\<rparr>)"

definition validate_HandwritingAnalysis :: "pylib \<Rightarrow> pydict \<Rightarrow> HandwritingAnalysis validated" where
  "validate_HandwritingAnalysis lib d =
     (let r1 = default_field (coerce_bool lib) ''has_handwritten_content'' False d;
          r2 = list_field (str_item lib) ''handwritten_sections'' d;
          r3 = unit_interval_field lib ''ocr_confidence'' d;
          r4 = optional_field (coerce_str lib) ''llm_interpretation'' d;
          r5 = list_field (str_item lib) ''unclear_text'' d
      in if isl r1 \<or> isl r2 \<or> isl r3 \<or> isl r4 \<or> isl r5
         then Inl (errors_of r1 @ errors_of r2 @ errors_of r3 @ errors_of r4 @ errors_of r5)
         else Inr \<lparr>has_handwritten_content = projr r1, handwritten_sections = projr r2,
                   handwriting_ocr_confidence = projr r3, llm_interpretation = projr r4,
                   unclear_text = projr r5\<rparr>)"

definition validate_ExtractedPrescription :: "pylib \<Rightarrow> pydict \<Rightarrow> ExtractedPrescription validated" where
  "validate_ExtractedPrescription lib d =
     (let r1 = default_field (coerce_str lib) ''document_type'' (lit ''prescription'') d;
          r2 = optional_field conv_PrescriptionType ''prescription_type'' d;
          r3 = optional_field (coerce_str lib) ''prescription_number'' d;
          r4 = optional_field (coerce_str lib) ''barcode'' d;
          r5 = optional_field (coerce_str lib) ''issue_date'' d;
          r6 = default_model (validate_PatientInfo lib) ''patient'' PatientInfo_default d;
          r7 = default_model (validate_DoctorInfo lib) ''doctor'' DoctorInfo_default d;
          r8 = default_model (validate_HospitalInfo lib) ''hospital'' HospitalInfo_default d;
          r9 = optional_field (coerce_str lib) ''diagnosis'' d;
          r10 = list_field (model_item (validate_MedicationItem lib)) ''medications'' d;
          r11 = optional_model (validate_SignatureInfo lib) ''doctor_signature'' d;
          r12 = optional_model (validate_HandwritingAnalysis lib) ''handwriting_analysis'' d;
          r13 = optional_field (coerce_str lib) ''notes'' d;
          r14 = optional_field (coerce_int lib) ''total_items'' d;
          r15 = optional_field (coerce_str lib) ''extraction_method'' d;
          r16 = unit_interval_field lib ''confidence_score'' d;
          r17 = unit_interval_field lib ''ocr_confidence'' d;
          r18 = default_field (coerce_bool lib) ''llm_enhanced'' False d;
          r19 = optional_field (coerce_str lib) ''ocr_text'' d
      in if isl r1 \<or> isl r2 \<or> isl r3 \<or> isl r4 \<or> isl r5 \<or> isl r6 \<or> isl r7 \<or> isl r8
            \<or> isl r9 \<or> isl r10 \<or> isl r11 \<or> isl r12 \<or> isl r13 \<or> isl r14 \<or> isl r15
            \<or> isl r16 \<or> isl r17 \<or> isl r18 \<or> isl r19
         then Inl (errors_of r1 @ errors_of r2 @ errors_of r3 @ errors_of r4 @ errors_of r5
                   @ errors_of r6 @ errors_of r7 @ errors_of r8 @ errors_of r9 @ errors_of r10
                   @ errors_of r11 @ errors_of r12 @ errors_of r13 @ errors_of r14
                   @ errors_of r15 @ errors_of r16 @ errors_of r17 @ errors_of r18
                   @ errors_of r19)
         else Inr \<lparr>document_type = projr r1, prescription_type = projr r2,
                   prescription_number = projr r3, barcode = projr r4, issue_date = projr r5,
                   patient = projr r6, doctor = projr r7, hospital = projr r8,
                   diagnosis = projr r9, medications = projr r10, doctor_signature = projr r11,
                   handwriting_analysis = projr r12, prescription_notes = projr r13,
                   total_items = projr r14, extraction_method = projr r15,
                   confidence_score = projr r16, ocr_confidence = projr r17,
                   llm_enhanced = projr r18, ocr_text = projr r19\<rparr>)"

text \<open>
  \<^verbatim>\<open>ExtractedPrescription(**raw_json)\<close> and \<^verbatim>\<open>SignatureInfo(**raw_json)\<close>:
  keys that name no field are ignored, a value that is not a mapping is a
  \<^verbatim>\<open>TypeError\<close>.
\<close>

definition construct_ExtractedPrescription :: "pylib \<Rightarrow> json \<Rightarrow> exn + ExtractedPrescription" where
  "construct_ExtractedPrescription lib raw_json =
     (case raw_json of
        JObj d \<Rightarrow>
          (case validate_ExtractedPrescription lib d of
             Inl es \<Rightarrow> Inl (ValidationError es)
           | Inr p \<Rightarrow> Inr p)
      | _ \<Rightarrow> Inl (TypeError (lit ''argument after ** must be a mapping'')))"

definition construct_SignatureInfo :: "pylib \<Rightarrow> json \<Rightarrow> exn + SignatureInfo" where
  "construct_SignatureInfo lib raw_json =
     (case raw_json of
        JObj d \<Rightarrow>
          (case validate_SignatureInfo lib d of
             Inl es \<Rightarrow> Inl (ValidationError es)
           | Inr p \<Rightarrow> Inr p)
      | _ \<Rightarrow> Inl (TypeError (lit ''argument after ** must be a mapping'')))"

section \<open>Remote extractors\<close>

text \<open>
  A remote service is a collaborator outside the code: the reply to its
  \<^verbatim>\<open>n\<close>-th invocation is the response text or the exception raised on the way
  (no image file, a failed call), with the seconds that invocation took. The model's
  clock only runs inside collaborators, so these seconds are what
  \<^verbatim>\<open>time.time() - start_time\<close> measures. The text client is
  \<^verbatim>\<open>LLMExtractor\<close>'s (invocation, OCR text, document type hint); the vision client
  is \<^verbatim>\<open>VisionExtractor\<close>'s, for the prescription prompt (invocation, image path,
  OCR text, OCR confidence) and for the signature prompt (invocation, image path).
\<close>

type_synonym reply = "(exn + pystr) \<times> real"

type_synonym text_client = "nat \<Rightarrow> pystr \<Rightarrow> pystr option \<Rightarrow> reply"

record vision_client =
  image_reply :: "nat \<Rightarrow> pystr \<Rightarrow> pystr option \<Rightarrow> real option \<Rightarrow> reply"
  signature_reply :: "nat \<Rightarrow> pystr \<Rightarrow> reply"

definition unknown_document :: ExtractedPrescription where
  "unknown_document = ExtractedPrescription_default\<lparr>document_type := lit ''unknown''\<rparr>"

text \<open>
  \<^verbatim>\<open>LLMExtractor.extract\<close>: one attempt. The last argument counts the invocations
  made so far; the result carries the new count.
\<close>

definition llm_extract ::
  "pylib \<Rightarrow> text_client \<Rightarrow> pystr \<Rightarrow> pystr option \<Rightarrow> nat \<Rightarrow> (ExtractedPrescription \<times> real) \<times> nat" where
  "llm_extract lib client ocr_txt hint n =
     (let (response, processing_time) = client n ocr_txt hint in
      case response of
        Inl e \<Rightarrow> ((unknown_document, processing_time), Suc n)
      | Inr response_text \<Rightarrow>
          (case extract_json_from_response lib response_text of
             Inl e \<Rightarrow> ((unknown_document, processing_time), Suc n)
           | Inr raw_json \<Rightarrow>
               (case construct_ExtractedPrescription lib raw_json of
                  Inl e \<Rightarrow> ((unknown_document, processing_time), Suc n)
                | Inr document \<Rightarrow> ((document, processing_time), Suc n))))"

text \<open>
  \<^verbatim>\<open>LLMExtractor.extract_with_retry\<close>: the loop over
  \<^verbatim>\<open>range(max_retries + 1)\<close>, with the attempts left, the time accumulated and the
  invocation count. \<^verbatim>\<open>extract\<close> catches every exception itself, so the loop's own
  handler is never entered.
\<close>

fun retry_attempts ::
  "pylib \<Rightarrow> text_client \<Rightarrow> pystr \<Rightarrow> pystr option \<Rightarrow> nat \<Rightarrow> real \<Rightarrow> nat
     \<Rightarrow> (ExtractedPrescription \<times> real) \<times> nat" where
  "retry_attempts lib client ocr_txt hint 0 total_time n = ((unknown_document, total_time), n)"
| "retry_attempts lib client ocr_txt hint (Suc k) total_time n =
     (let ((document, processing_time), n') = llm_extract lib client ocr_txt hint n;
          total_time' = total_time + processing_time
      in if document_type document \<noteq> lit ''unknown'' then ((document, total_time'), n')
         else retry_attempts lib client ocr_txt hint k total_time' n')"

definition extract_with_retry ::
  "pylib \<Rightarrow> text_client \<Rightarrow> pystr \<Rightarrow> pystr option \<Rightarrow> int \<Rightarrow> nat \<Rightarrow> (ExtractedPrescription \<times> real) \<times> nat" where
  "extract_with_retry lib client ocr_txt hint max_retries n =
     retry_attempts lib client ocr_txt hint (nat (max_retries + 1)) 0 n"

text \<open>\<^verbatim>\<open>raw_json[k] = v\<close>.\<close>

definition dict_set :: "pystr \<Rightarrow> json \<Rightarrow> pydict \<Rightarrow> pydict" where
  "dict_set k v d = (k, v) # filter (\<lambda>e. fst e \<noteq> k) d"

definition failed_vision_document :: ExtractedPrescription where
  "failed_vision_document =
     ExtractedPrescription_default
       \<lparr>document_type := lit ''prescription'', extraction_method := Some (lit ''llm_vision''),
        llm_enhanced := True\<rparr>"

text \<open>
  \<^verbatim>\<open>VisionExtractor.extract_from_image\<close>: one attempt; every failure gives the same
  record. Item assignment on a value that is not a mapping is a \<^verbatim>\<open>TypeError\<close>.
\<close>

definition extract_from_image ::
  "pylib \<Rightarrow> vision_client \<Rightarrow> pystr \<Rightarrow> pystr option \<Rightarrow> real option \<Rightarrow> nat
     \<Rightarrow> (ExtractedPrescription \<times> real) \<times> nat" where
  "extract_from_image lib v image_path ocr_txt ocr_conf n =
     (let (response, processing_time) = image_reply v n image_path ocr_txt ocr_conf in
      case response of
        Inl e \<Rightarrow> ((failed_vision_document, processing_time), Suc n)
      | Inr response_text \<Rightarrow>
          (case extract_json_from_response lib response_text of
             Inr (JObj d) \<Rightarrow>
               (let d1 = dict_set (lit ''extraction_method'') (JStr (lit ''llm_vision'')) d;
                    d2 = dict_set (lit ''llm_enhanced'') (JBool True) d1;
                    d3 = (case ocr_conf of
                            None \<Rightarrow> d2
                          | Some c \<Rightarrow>
                              if c \<noteq> 0 then dict_set (lit ''ocr_confidence'') (JFloat c) d2 else d2)
                in case construct_ExtractedPrescription lib (JObj d3) of
                     Inl e \<Rightarrow> ((failed_vision_document, processing_time), Suc n)
                   | Inr p \<Rightarrow> ((p, processing_time), Suc n))
           | _ \<Rightarrow> ((failed_vision_document, processing_time), Suc n)))"

text \<open>\<^verbatim>\<open>VisionExtractor.analyze_signature_only\<close>.\<close>

definition analyze_signature_only ::
  "pylib \<Rightarrow> vision_client \<Rightarrow> pystr \<Rightarrow> nat \<Rightarrow> (SignatureInfo \<times> real) \<times> nat" where
  "analyze_signature_only lib v image_path n =
     (let (response, processing_time) = signature_reply v n image_path in
      case response of
        Inl e \<Rightarrow> ((SignatureInfo_default\<lparr>is_present := False\<rparr>, processing_time), Suc n)
      | Inr response_text \<Rightarrow>
          (case extract_json_from_response lib response_text of
             Inl e \<Rightarrow> ((SignatureInfo_default\<lparr>is_present := False\<rparr>, processing_time), Suc n)
           | Inr raw_json \<Rightarrow>
               (case construct_SignatureInfo lib raw_json of
                  Inl e \<Rightarrow> ((SignatureInfo_default\<lparr>is_present := False\<rparr>, processing_time), Suc n)
                | Inr signature_info \<Rightarrow> ((signature_info, processing_time), Suc n))))"

section \<open>Local fallback structurer\<close>

text \<open>
  \<^verbatim>\<open>s.strip()\<close>, \<^verbatim>\<open>s.replace(old, "")\<close>, \<^verbatim>\<open>text.split("\n")\<close>, and
  \<^verbatim>\<open>re.sub\<close> for a pattern that matches no empty string: with a pattern anchored
  by \<^verbatim>\<open>^\<close> only a match at the start is replaced; otherwise every match is, from
  left to right (each takes at least one character, so the length of the string bounds
  their number).
\<close>

definition strip :: "pylib \<Rightarrow> pystr \<Rightarrow> pystr" where
  "strip lib s = rev (dropWhile (is_space lib) (rev (dropWhile (is_space lib) s)))"

fun str_remove :: "pystr \<Rightarrow> pystr \<Rightarrow> pystr" where
  "str_remove old [] = []"
| "str_remove old (c # cs) =
     (if old \<noteq> [] \<and> startswith (c # cs) old then str_remove old (drop (length old - 1) cs)
      else c # str_remove old cs)"

fun split_lines :: "pystr \<Rightarrow> pystr list" where
  "split_lines [] = [[]]"
| "split_lines (c # cs) =
     (if c = 10 then [] # split_lines cs
      else (case split_lines cs of [] \<Rightarrow> [[c]] | l # ls \<Rightarrow> (c # l) # ls))"

definition sub_prefix :: "rx \<Rightarrow> pystr \<Rightarrow> pystr" where
  "sub_prefix r s = (case re_match r s of None \<Rightarrow> s | Some (m, rest, cp) \<Rightarrow> rest)"

fun re_sub :: "rx \<Rightarrow> pystr \<Rightarrow> nat \<Rightarrow> pystr \<Rightarrow> pystr" where
  "re_sub r repl 0 s = s"
| "re_sub r repl (Suc fuel) s =
     (case re_search r s of
        None \<Rightarrow> s
      | Some (m, rest, cp) \<Rightarrow>
          take (length s - length m - length rest) s @ repl @ re_sub r repl fuel rest)"

text \<open>The Vietnamese words of the source, as code points.\<close>

definition vn_vien :: pystr where "vn_vien = lit ''vi'' @ [234] @ lit ''n''"
definition vn_goi :: pystr where "vn_goi = lit ''g'' @ [243] @ lit ''i''"
definition vn_ong :: pystr where "vn_ong = [7889] @ lit ''ng''"
definition vn_ngay :: pystr where "vn_ngay = lit ''ng'' @ [224] @ lit ''y''"
definition vn_lan :: pystr where "vn_lan = lit ''l'' @ [7847] @ lit ''n''"
definition vn_sang :: pystr where "vn_sang = lit ''s'' @ [225] @ lit ''ng''"
definition vn_trua :: pystr where "vn_trua = lit ''tr'' @ [432] @ lit ''a''"
definition vn_toi :: pystr where "vn_toi = lit ''t'' @ [7889] @ lit ''i''"
definition vn_sau_an :: pystr where "vn_sau_an = lit ''sau '' @ [259] @ lit ''n''"
definition vn_truoc_an :: pystr where "vn_truoc_an = lit ''tr'' @ [432, 7899] @ lit ''c '' @ [259] @ lit ''n''"
definition vn_uong :: pystr where "vn_uong = lit ''u'' @ [7889] @ lit ''ng''"
definition vn_tiem :: pystr where "vn_tiem = lit ''ti'' @ [234] @ lit ''m''"
definition vn_boi :: pystr where "vn_boi = lit ''b'' @ [244] @ lit ''i''"
definition vn_nho :: pystr where "vn_nho = lit ''nh'' @ [7887]"
definition vn_so_luong :: pystr where "vn_so_luong = lit ''s'' @ [7889] @ lit '' l'' @ [432, 7907] @ lit ''ng''"

definition MEDICATION_KEYWORDS :: "pystr list" where
  "MEDICATION_KEYWORDS =
     [lit ''mg'', lit ''ml'', vn_vien, lit ''tablet'', lit ''capsule'', vn_goi, vn_ong, lit ''chai'',
      vn_ngay, vn_lan, vn_sang, vn_trua, vn_toi, vn_sau_an, vn_truoc_an,
      vn_uong, vn_tiem, vn_boi, vn_nho]"

text \<open>
  The patterns of \<^verbatim>\<open>_is_medication_line\<close> and \<^verbatim>\<open>_parse_medication_line\<close>:
  a leading number with a full stop or a closing parenthesis, a leading bullet (hyphen,
  U+2022 or asterisk), and, under \<^verbatim>\<open>re.IGNORECASE\<close>, the dosage, the quantity
  (groups 1 and 2) and the five frequency patterns in their order. In the dosage and
  frequency patterns group 1 spans the whole pattern, so \<^verbatim>\<open>group(1)\<close> is the
  matched text.
\<close>

definition enumerator_rx :: "pylib \<Rightarrow> rx" where
  "enumerator_rx lib =
     seqs [Plus (is_digit lib), Chr (\<lambda>c. c = 46 \<or> c = 41), Star (is_space lib)]"

definition bullet_rx :: "pylib \<Rightarrow> rx" where
  "bullet_rx lib = seqs [Chr (\<lambda>c. c = 45 \<or> c = 8226 \<or> c = 42), Star (is_space lib)]"

definition dosage_rx :: "pylib \<Rightarrow> rx" where
  "dosage_rx lib =
     seqs [Plus (is_digit lib), Star (is_space lib),
           alts (ci_rx lib (lit ''mg'')) [ci_rx lib (lit ''ml''), ci_rx lib (lit ''g''),
                                         ci_rx lib (lit ''mcg''), ci_rx lib (lit ''iu'')]]"

definition qty_rx :: "pylib \<Rightarrow> rx" where
  "qty_rx lib =
     Alt (seqs [alts (ci_rx lib (lit ''x''))
                  [Seq (ci_rx lib (lit ''SL'')) (Opt (Chr (ci_eq lib 58))),
                   Seq (ci_rx lib vn_so_luong) (Opt (Chr (ci_eq lib 58)))],
                Star (is_space lib), Grp 1 (Plus (is_digit lib))])
         (seqs [Grp 2 (Plus (is_digit lib)), Star (is_space lib),
                alts (ci_rx lib vn_vien) [ci_rx lib (lit ''tablet''), ci_rx lib (lit ''capsule''),
                                         ci_rx lib vn_goi, ci_rx lib vn_ong]])"

definition freq_patterns :: "pylib \<Rightarrow> rx list" where
  "freq_patterns lib =
     [seqs [ci_rx lib vn_ngay, Star (is_space lib),
            Opt (Seq (ci_rx lib vn_uong) (Star (is_space lib))),
            Plus (is_digit lib), Star (is_space lib),
            Alt (ci_rx lib vn_lan) (ci_rx lib vn_vien), Star (\<lambda>c. c \<noteq> 10)],
      seqs [ci_rx lib vn_sang, Star (is_space lib), Plus (is_digit lib), Star (is_space lib),
            ci_rx lib vn_vien, Star (\<lambda>c. c \<noteq> 10)],
      seqs [alts (ci_rx lib vn_sang) [ci_rx lib vn_trua, ci_rx lib vn_toi],
            Star (\<lambda>c. c \<noteq> 10), ci_rx lib vn_vien, Star (\<lambda>c. c \<noteq> 10)],
      seqs [ci_rx lib vn_sau_an, Star (\<lambda>c. c \<noteq> 10)],
      seqs [ci_rx lib vn_truoc_an, Star (\<lambda>c. c \<noteq> 10)]]"

text \<open>\<^verbatim>\<open>OCRTextParser._is_medication_line\<close>.\<close>

definition is_medication_line :: "pylib \<Rightarrow> pystr \<Rightarrow> bool" where
  "is_medication_line lib line =
     (if re_match (enumerator_rx lib) line \<noteq> None then True
      else if startswith line [45] \<or> startswith line [8226] \<or> startswith line [42] then True
      else (let line_lower = str_lower lib line;
                keyword_count = length (filter (\<lambda>kw. str_contains kw line_lower) MEDICATION_KEYWORDS)
            in if keyword_count \<ge> 2 then True else False))"

text \<open>The loop over the frequency patterns: the first that matches gives the frequency.\<close>

fun first_frequency :: "pylib \<Rightarrow> rx list \<Rightarrow> pystr \<Rightarrow> pystr option" where
  "first_frequency lib [] line = None"
| "first_frequency lib (pattern # patterns) line =
     (case re_search pattern line of
        Some freq_match \<Rightarrow> Some (strip lib (group0 freq_match))
      | None \<Rightarrow> first_frequency lib patterns line)"

text \<open>
  \<^verbatim>\<open>OCRTextParser._parse_medication_line\<close>. The variable \<^verbatim>\<open>line\<close> of the source
  is reassigned: \<^verbatim>\<open>stripped\<close> is its value after the leading number or bullet is
  removed and the white space around it is stripped.
\<close>

definition stripped_line :: "pylib \<Rightarrow> pystr \<Rightarrow> pystr" where
  "stripped_line lib line = strip lib (sub_prefix (bullet_rx lib) (sub_prefix (enumerator_rx lib) line))"

definition cleaned_name :: "pylib \<Rightarrow> pystr \<Rightarrow> pystr option \<Rightarrow> pystr option \<Rightarrow> pystr" where
  "cleaned_name lib stripped dos freq =
     (let name1 = (case dos of None \<Rightarrow> stripped
                   | Some d \<Rightarrow> if d \<noteq> [] then str_remove d stripped else stripped);
          name2 = (case freq of None \<Rightarrow> name1
                   | Some f \<Rightarrow> if f \<noteq> [] then str_remove f name1 else name1);
          name3 = strip lib (re_sub (Plus (is_space lib)) [32] (length name2) name2)
      in re_sub (Seq (Plus (\<lambda>c. c = 44 \<or> is_space lib c)) Eos) [] (length name3) name3)"

definition parse_medication_line :: "pylib \<Rightarrow> pystr \<Rightarrow> MedicationItem option" where
  "parse_medication_line lib line =
     (let stripped = stripped_line lib line in
      if stripped = [] \<or> length stripped < 3 then None
      else
        (let dos = (case re_search (dosage_rx lib) stripped of
                      None \<Rightarrow> None
                    | Some dosage_match \<Rightarrow> Some (group0 dosage_match));
             qty = (case re_search (qty_rx lib) stripped of
                      None \<Rightarrow> None
                    | Some qty_match \<Rightarrow>
                        (case group 1 qty_match of
                           None \<Rightarrow> group 2 qty_match
                         | Some g \<Rightarrow> if g \<noteq> [] then Some g else group 2 qty_match));
             freq = first_frequency lib (freq_patterns lib) stripped;
             cleaned = cleaned_name lib stripped dos freq
         in Some \<lparr>name = (if length cleaned < 2 then stripped else cleaned),
                   dosage = dos, quantity = qty, frequency = freq, duration = None,
                   instructions = None, is_handwritten = None\<rparr>))"

text \<open>\<^verbatim>\<open>OCRTextParser._extract_medications\<close>: the first pass and the relaxed second.\<close>

definition extract_medications :: "pylib \<Rightarrow> pystr \<Rightarrow> MedicationItem list" where
  "extract_medications lib txt =
     (let lines = split_lines txt;
          first_pass =
            List.map_filter
              (\<lambda>l. let line = strip lib l in
                   if line = [] then None
                   else if is_medication_line lib line then parse_medication_line lib line
                   else None)
              lines
      in if first_pass \<noteq> [] then first_pass
         else
           List.map_filter
             (\<lambda>l. let line = strip lib l in
                  if list_ex (\<lambda>kw. str_contains kw (str_lower lib line)) MEDICATION_KEYWORDS
                  then parse_medication_line lib line
                  else None)
             lines)"

text \<open>
  \<^verbatim>\<open>OCRTextParser._find_first_match\<close> over a table of header patterns, and
  \<^verbatim>\<open>_clean_text\<close>.
\<close>

fun table_size :: "pattern_table \<Rightarrow> nat" where
  "table_size PATIENT_NAME_PATTERNS = 2"
| "table_size PATIENT_AGE_PATTERNS = 2"
| "table_size PATIENT_GENDER_PATTERNS = 2"
| "table_size PATIENT_ADDRESS_PATTERNS = 1"
| "table_size DOCTOR_NAME_PATTERNS = 2"
| "table_size HOSPITAL_PATTERNS = 2"
| "table_size DEPARTMENT_PATTERNS = 1"
| "table_size DIAGNOSIS_PATTERNS = 2"
| "table_size DATE_PATTERNS = 2"
| "table_size PRESCRIPTION_NUMBER_PATTERNS = 2"

fun first_match_in :: "pylib \<Rightarrow> pattern_table \<Rightarrow> pystr \<Rightarrow> nat list \<Rightarrow> pystr option" where
  "first_match_in lib table txt [] = None"
| "first_match_in lib table txt (i # rest) =
     (case header_search lib table i txt of
        Some g \<Rightarrow> Some (strip lib g)
      | None \<Rightarrow> first_match_in lib table txt rest)"

definition find_first_match :: "pylib \<Rightarrow> pystr \<Rightarrow> pattern_table \<Rightarrow> pystr option" where
  "find_first_match lib txt table = first_match_in lib table txt [0..<table_size table]"

definition clean_text :: "pylib \<Rightarrow> pystr option \<Rightarrow> pystr option" where
  "clean_text lib t =
     (case t of
        None \<Rightarrow> None
      | Some s \<Rightarrow>
          if s = [] then None
          else
            (let s1 = strip lib (re_sub (Plus (is_space lib)) [32] (length s) s);
                 s2 = re_sub (Seq (Plus (\<lambda>c. c = 58 \<or> is_space lib c \<or> c = 44)) Eos) []
                        (length s1) s1
             in if s2 = [] then None else Some s2))"

definition extract_patient_info :: "pylib \<Rightarrow> pystr \<Rightarrow> PatientInfo" where
  "extract_patient_info lib txt =
     PatientInfo_default
       \<lparr>patient_name := clean_text lib (find_first_match lib txt PATIENT_NAME_PATTERNS),
        patient_age := find_first_match lib txt PATIENT_AGE_PATTERNS,
        patient_gender := find_first_match lib txt PATIENT_GENDER_PATTERNS,
        patient_address := clean_text lib (find_first_match lib txt PATIENT_ADDRESS_PATTERNS)\<rparr>"

definition extract_doctor_info :: "pylib \<Rightarrow> pystr \<Rightarrow> DoctorInfo" where
  "extract_doctor_info lib txt =
     (let found = find_first_match lib txt DOCTOR_NAME_PATTERNS;
          titled = (case found of
                      None \<Rightarrow> None
                    | Some n \<Rightarrow> if n = [] then None else title_match lib n)
      in case titled of
           None \<Rightarrow> DoctorInfo_default\<lparr>doctor_name := clean_text lib found\<rparr>
         | Some t \<Rightarrow>
             DoctorInfo_default
               \<lparr>doctor_name := clean_text lib (map_option (\<lambda>n. strip lib (drop (length t) n)) found),
                doctor_title := Some t\<rparr>)"

definition extract_hospital_info :: "pylib \<Rightarrow> pystr \<Rightarrow> HospitalInfo" where
  "extract_hospital_info lib txt =
     HospitalInfo_default
       \<lparr>hospital_name := clean_text lib (find_first_match lib txt HOSPITAL_PATTERNS),
        hospital_department := clean_text lib (find_first_match lib txt DEPARTMENT_PATTERNS)\<rparr>"

text \<open>
  \<^verbatim>\<open>OCRTextParser.parse\<close>. The constructor validates the two confidence arguments
  against the bounds of their fields; the other arguments have the types of their fields.
\<close>

definition parse :: "pylib \<Rightarrow> pystr \<Rightarrow> real \<Rightarrow> exn + ExtractedPrescription" where
  "parse lib txt ocr_conf =
     (let meds = extract_medications lib txt;
          ptype = (if ocr_conf < 0.5 then lit ''handwritten''
                   else if ocr_conf < 0.7 then lit ''mixed''
                   else lit ''printed'')
      in if 0 \<le> ocr_conf \<and> ocr_conf \<le> 1
         then Inr (ExtractedPrescription_default
                \<lparr>document_type := lit ''prescription'',
                 prescription_type := Some ptype,
                 prescription_number := find_first_match lib txt PRESCRIPTION_NUMBER_PATTERNS,
                 issue_date := find_first_match lib txt DATE_PATTERNS,
                 patient := extract_patient_info lib txt,
                 doctor := extract_doctor_info lib txt,
                 hospital := extract_hospital_info lib txt,
                 diagnosis := clean_text lib (find_first_match lib txt DIAGNOSIS_PATTERNS),
                 medications := meds,
                 extraction_method := Some (lit ''ocr_only''),
                 confidence_score := Some ocr_conf,
                 ocr_confidence := Some ocr_conf,
                 llm_enhanced := False,
                 total_items := Some (int (length meds)),
                 ocr_text := Some txt\<rparr>)
         else Inl (ValidationError [[Key ''confidence_score''], [Key ''ocr_confidence'']]))"

section \<open>Orchestrator\<close>

text \<open>
  The collaborators of \<^verbatim>\<open>PrescriptionProcessor\<close>: the OCR engine (the text, its
  confidence and the seconds taken, or the exception raised) and the two extractors,
  \<^verbatim>\<open>None\<close> when they failed to initialise. The state that the processing of a
  document changes is the number of invocations made of each remote prompt.
\<close>

record env =
  ocr_extract_with_fallback :: "pystr \<Rightarrow> exn + (pystr \<times> real \<times> real)"
  vision :: "vision_client option"
  llm_text :: "text_client option"

record calls =
  text_calls :: nat
  vision_calls :: nat
  signature_calls :: nat

text \<open>
  The processing metadata: a dictionary with string keys. An entry of
  \<^verbatim>\<open>processing_stages\<close> is kept as its stage name with the data of its fields (the
  reason strings are formatted from the prescription type and the OCR confidence).
\<close>

datatype stage =
    OcrStage real real nat
  | VisionStage real pystr real
  | LlmTextStructuringStage real real
  | OcrParsingRegexStage real
  | SignatureDetectionStage real bool

fun stage_time :: "stage \<Rightarrow> real" where
  "stage_time (OcrStage t c n) = t"
| "stage_time (VisionStage t ty c) = t"
| "stage_time (LlmTextStructuringStage t c) = t"
| "stage_time (OcrParsingRegexStage t) = t"
| "stage_time (SignatureDetectionStage t b) = t"

datatype mval = MStr pystr | MBool bool | MNum real | MStages "stage list"

type_synonym metadata = "string \<Rightarrow> mval option"

text \<open>
  Stage 2 of \<^verbatim>\<open>process\<close>: the primary extraction by the chosen strategy, with the
  updates of the record, of the metadata and of the stage list.
\<close>

definition primary_stage ::
  "pylib \<Rightarrow> env \<Rightarrow> pystr \<Rightarrow> bool \<Rightarrow> pystr \<Rightarrow> real \<Rightarrow> pystr \<Rightarrow> metadata \<Rightarrow> stage list \<Rightarrow> calls
     \<Rightarrow> (exn + (ExtractedPrescription \<times> metadata \<times> stage list)) \<times> calls" where
  "primary_stage lib e image_path force_vision ocr_txt ocr_conf ptype md stages st =
     (case choose_strategy force_vision ocr_conf ptype (vision e) (llm_text e) of
        UseVision v \<Rightarrow>
          (let ((p, vision_time), n) =
                 extract_from_image lib v image_path (Some ocr_txt) (Some ocr_conf) (vision_calls st)
           in (Inr (p\<lparr>prescription_type := Some ptype,
                      extraction_method := Some (lit ''ocr_plus_llm''),
                      ocr_confidence := Some ocr_conf,
                      llm_enhanced := True\<rparr>,
                    md(''vision_used'' \<mapsto> MBool True,
                       ''extraction_method'' \<mapsto> MStr (lit ''ocr_plus_llm_vision'')),
                    stages @ [VisionStage vision_time ptype ocr_conf]),
               st\<lparr>vision_calls := n\<rparr>))
      | UseLLMText client \<Rightarrow>
          (let ((p, llm_time), n) =
                 llm_extract lib client ocr_txt (Some (lit ''prescription'')) (text_calls st)
           in (Inr (p\<lparr>prescription_type := Some ptype,
                      extraction_method := Some (lit ''ocr_plus_llm_text''),
                      ocr_confidence := Some ocr_conf,
                      llm_enhanced := True\<rparr>,
                    md(''extraction_method'' \<mapsto> MStr (lit ''ocr_plus_llm_text''),
                       ''vision_used'' \<mapsto> MBool False,
                       ''llm_text_used'' \<mapsto> MBool True),
                    stages @ [LlmTextStructuringStage llm_time ocr_conf]),
               st\<lparr>text_calls := n\<rparr>))
      | UseRegex \<Rightarrow>
          (case parse lib ocr_txt ocr_conf of
             Inl err \<Rightarrow> (Inl err, st)
           | Inr p \<Rightarrow>
               (Inr (p\<lparr>prescription_type := Some ptype\<rparr>,
                     md(''extraction_method'' \<mapsto> MStr (lit ''ocr_only_regex''),
                        ''vision_used'' \<mapsto> MBool False),
                     stages @ [OcrParsingRegexStage 0]),
                st)))"

text \<open>
  Stage 3 of \<^verbatim>\<open>process\<close>: the dedicated signature detection, under the guard
  \<^verbatim>\<open>VISION_ALWAYS_FOR_SIGNATURES and self.vision and not prescription.doctor_signature\<close>
  (a model instance is always true, so the last conjunct says that the field is
  \<^verbatim>\<open>None\<close>).
\<close>

definition signature_stage ::
  "pylib \<Rightarrow> env \<Rightarrow> pystr \<Rightarrow> ExtractedPrescription \<Rightarrow> stage list \<Rightarrow> calls
     \<Rightarrow> (ExtractedPrescription \<times> stage list) \<times> calls" where
  "signature_stage lib e image_path p stages st =
     (case (if VISION_ALWAYS_FOR_SIGNATURES then vision e else None) of
        None \<Rightarrow> ((p, stages), st)
      | Some v \<Rightarrow>
          if doctor_signature p = None
          then (let ((signature_info, sig_time), n) =
                      analyze_signature_only lib v image_path (signature_calls st)
                in ((p\<lparr>doctor_signature := Some signature_info\<rparr>,
                     stages @ [SignatureDetectionStage sig_time (is_present signature_info)]),
                    st\<lparr>signature_calls := n\<rparr>))
          else ((p, stages), st))"

text \<open>The metadata dictionary that \<^verbatim>\<open>process\<close> starts from.\<close>

definition initial_metadata :: "pylib \<Rightarrow> pystr \<Rightarrow> metadata" where
  "initial_metadata lib image_path =
     [''file_name'' \<mapsto> MStr (path_name lib image_path),
      ''file_path'' \<mapsto> MStr (path_str lib image_path),
      ''ocr_used'' \<mapsto> MBool True,
      ''vision_used'' \<mapsto> MBool False,
      ''extraction_method'' \<mapsto> MStr (lit ''ocr_only'')]"

text \<open>
  \<^verbatim>\<open>PrescriptionProcessor.process\<close>. An exception of the OCR engine or of the
  regular-expression parser's constructor leaves the function. The total time is the
  time of the stages, as the clock only runs inside collaborators.
\<close>

definition process ::
  "pylib \<Rightarrow> env \<Rightarrow> pystr \<Rightarrow> bool \<Rightarrow> calls \<Rightarrow> (exn + (ExtractedPrescription \<times> metadata)) \<times> calls" where
  "process lib e image_path force_vision st =
     (let pth = path_str lib image_path;
          md0 = initial_metadata lib image_path
      in case ocr_extract_with_fallback e pth of
           Inl err \<Rightarrow> (Inl err, st)
         | Inr (ocr_txt, ocr_conf, ocr_time) \<Rightarrow>
             (let stages0 = [OcrStage ocr_time ocr_conf (length ocr_txt)];
                  ptype = classify_prescription_type lib image_path ocr_conf
              in case primary_stage lib e pth force_vision ocr_txt ocr_conf ptype md0 stages0 st of
                   (Inl err, st1) \<Rightarrow> (Inl err, st1)
                 | (Inr (p1, md1, stages1), st1) \<Rightarrow>
                     (let p2 = p1\<lparr>ocr_text := Some ocr_txt\<rparr>;
                          ((p3, stages3), st3) = signature_stage lib e pth p2 stages1 st1;
                          total_time = sum_list (map stage_time stages3);
                          final_confidence =
                            (case confidence_score p3 of
                               None \<Rightarrow> ocr_conf
                             | Some c \<Rightarrow> if c \<noteq> 0 then c else ocr_conf)
                      in (Inr (p3, md1(''processing_stages'' \<mapsto> MStages stages3,
                                       ''total_processing_time'' \<mapsto> MNum total_time,
                                       ''final_confidence'' \<mapsto> MNum final_confidence)),
                          st3))))"

text \<open>
  \<^verbatim>\<open>PrescriptionProcessor.process_batch\<close>: the entry appended for one path, and the
  loop over the paths.
\<close>

definition batch_entry ::
  "pylib \<Rightarrow> pystr \<Rightarrow> exn + (ExtractedPrescription \<times> metadata) \<Rightarrow> ExtractedPrescription \<times> metadata" where
  "batch_entry lib path r =
     (case r of
        Inr pm \<Rightarrow> pm
      | Inl err \<Rightarrow>
          (ExtractedPrescription_default\<lparr>document_type := lit ''prescription''\<rparr>,
           [''error'' \<mapsto> MStr (str_of_exn lib err), ''file_path'' \<mapsto> MStr path]))"

fun process_batch ::
  "pylib \<Rightarrow> env \<Rightarrow> pystr list \<Rightarrow> bool \<Rightarrow> calls \<Rightarrow> (ExtractedPrescription \<times> metadata) list \<times> calls" where
  "process_batch lib e [] force_vision st = ([], st)"
| "process_batch lib e (path # paths) force_vision st =
     (let (r, st1) = process lib e path force_vision st;
          (results, st2) = process_batch lib e paths force_vision st1
      in (batch_entry lib path r # results, st2))"

section \<open>A reference instance of the runtime\<close>

text \<open>
  An instance of the runtime for evaluating the code on concrete inputs. White space is
  the set of \<^verbatim>\<open>str.isspace\<close>. Digits and letter case are those of the code points
  below U+0250 together with the letters of the Vietnamese alphabet (below U+0660 the
  decimal digits are the ASCII ones). Paths are POSIX paths. The JSON decoder reads
  objects, arrays, strings without escapes, integers, decimal fractions without exponent
  and the three literals, and rejects every other text. The conversions to field types are
  pydantic's for the values a JSON decoder yields, without the conversion of strings to
  numbers.
\<close>

definition ref_is_space :: "nat \<Rightarrow> bool" where
  "ref_is_space c =
     ((9 \<le> c \<and> c \<le> 13) \<or> (28 \<le> c \<and> c \<le> 32) \<or> c = 133 \<or> c = 160 \<or> c = 5760
      \<or> (8192 \<le> c \<and> c \<le> 8202) \<or> c = 8232 \<or> c = 8233 \<or> c = 8239 \<or> c = 8287
      \<or> c = 12288)"

definition ref_is_digit :: "nat \<Rightarrow> bool" where
  "ref_is_digit c = (48 \<le> c \<and> c \<le> 57)"

definition ref_lower :: "nat \<Rightarrow> nat" where
  "ref_lower c =
     (if 65 \<le> c \<and> c \<le> 90 then c + 32
      else if 192 \<le> c \<and> c \<le> 222 \<and> c \<noteq> 215 then c + 32
      else if c = 258 \<or> c = 272 \<or> c = 296 \<or> c = 360 \<or> c = 416 \<or> c = 431 then c + 1
      else if 7840 \<le> c \<and> c \<le> 7929 \<and> even c then c + 1
      else c)"

text \<open>The parts of a POSIX path: empty parts and single dots are dropped.\<close>

fun split_on :: "nat \<Rightarrow> pystr \<Rightarrow> pystr list" where
  "split_on sep [] = [[]]"
| "split_on sep (c # cs) =
     (if c = sep then [] # split_on sep cs
      else (case split_on sep cs of [] \<Rightarrow> [[c]] | l # ls \<Rightarrow> (c # l) # ls))"

definition path_parts :: "pystr \<Rightarrow> pystr list" where
  "path_parts p = filter (\<lambda>x. x \<noteq> [] \<and> x \<noteq> [46]) (split_on 47 p)"

definition path_root :: "pystr \<Rightarrow> pystr" where
  "path_root p =
     (if startswith p [47, 47] \<and> \<not> startswith p [47, 47, 47] then [47, 47]
      else if startswith p [47] then [47]
      else [])"

fun join_parts :: "pystr list \<Rightarrow> pystr" where
  "join_parts [] = []"
| "join_parts [x] = x"
| "join_parts (x # y # ys) = x @ [47] @ join_parts (y # ys)"

definition ref_path_str :: "pystr \<Rightarrow> pystr" where
  "ref_path_str p =
     (if path_root p = [] \<and> path_parts p = [] then [46]
      else path_root p @ join_parts (path_parts p))"

definition ref_path_name :: "pystr \<Rightarrow> pystr" where
  "ref_path_name p = (case rev (path_parts p) of [] \<Rightarrow> [] | x # xs \<Rightarrow> x)"

definition ref_path_parent_name :: "pystr \<Rightarrow> pystr" where
  "ref_path_parent_name p = (case rev (path_parts p) of x # y # ys \<Rightarrow> y | _ \<Rightarrow> [])"

text \<open>The JSON decoder. The first argument bounds the depth of the recursion.\<close>

definition json_ws :: "pystr \<Rightarrow> pystr" where
  "json_ws s = dropWhile (\<lambda>c. c = 32 \<or> c = 9 \<or> c = 10 \<or> c = 13) s"

fun json_string_body :: "pystr \<Rightarrow> (pystr \<times> pystr) option" where
  "json_string_body [] = None"
| "json_string_body (c # cs) =
     (if c = 34 then Some ([], cs)
      else if c = 92 \<or> c < 32 then None
      else (case json_string_body cs of None \<Rightarrow> None | Some (str, r) \<Rightarrow> Some (c # str, r)))"

definition digits_val :: "pystr \<Rightarrow> int" where
  "digits_val ds = foldl (\<lambda>a c. 10 * a + (int c - 48)) 0 ds"

definition json_number :: "pystr \<Rightarrow> (json \<times> pystr) option" where
  "json_number s =
     (let neg = startswith s [45];
          s0 = (if neg then drop 1 s else s);
          ds = takeWhile ref_is_digit s0;
          s1 = dropWhile ref_is_digit s0;
          sgn = (if neg then - 1 else 1)
      in if ds = [] \<or> (length ds > 1 \<and> startswith ds [48]) then None
         else if startswith s1 [46]
         then (let fs = takeWhile ref_is_digit (drop 1 s1);
                   s2 = dropWhile ref_is_digit (drop 1 s1)
               in if fs = [] then None
                  else Some (JFloat (of_int sgn * (of_int (digits_val ds)
                                       + of_int (digits_val fs) / 10 ^ length fs)), s2))
         else Some (JInt (sgn * digits_val ds), s1))"

fun last_wins :: "pydict \<Rightarrow> pydict" where
  "last_wins [] = []"
| "last_wins (kv # rest) =
     (if fst kv \<in> fst ` set rest then last_wins rest else kv # last_wins rest)"

fun json_value :: "'f list \<Rightarrow> pystr \<Rightarrow> (json \<times> pystr) option"
  and json_elements :: "'f list \<Rightarrow> pystr \<Rightarrow> (json list \<times> pystr) option"
  and json_members :: "'f list \<Rightarrow> pystr \<Rightarrow> (pydict \<times> pystr) option" where
  "json_value [] s = None"
| "json_value (u # fuel) s =
     (let s0 = json_ws s in
      if startswith s0 [123] then
        (if startswith (json_ws (drop 1 s0)) [125] then Some (JObj [], drop 1 (json_ws (drop 1 s0)))
         else (case json_members fuel (drop 1 s0) of
                 None \<Rightarrow> None
               | Some (ms, r) \<Rightarrow> Some (JObj (last_wins ms), r)))
      else if startswith s0 [91] then
        (if startswith (json_ws (drop 1 s0)) [93] then Some (JArr [], drop 1 (json_ws (drop 1 s0)))
         else (case json_elements fuel (drop 1 s0) of
                 None \<Rightarrow> None
               | Some (vs, r) \<Rightarrow> Some (JArr vs, r)))
      else if startswith s0 [34] then
        (case json_string_body (drop 1 s0) of
           None \<Rightarrow> None
         | Some (str, r) \<Rightarrow> Some (JStr str, r))
      else if startswith s0 (lit ''null'') then Some (JNull, drop 4 s0)
      else if startswith s0 (lit ''true'') then Some (JBool True, drop 4 s0)
      else if startswith s0 (lit ''false'') then Some (JBool False, drop 5 s0)
      else json_number s0)"
| "json_elements [] s = None"
| "json_elements (u # fuel) s =
     (case json_value fuel s of
        None \<Rightarrow> None
      | Some (v, r) \<Rightarrow>
          (let r0 = json_ws r in
           if startswith r0 [44] then
             (case json_elements fuel (drop 1 r0) of
                None \<Rightarrow> None
              | Some (vs, r1) \<Rightarrow> Some (v # vs, r1))
           else if startswith r0 [93] then Some ([v], drop 1 r0)
           else None))"
| "json_members [] s = None"
| "json_members (u # fuel) s =
     (let s0 = json_ws s in
      if startswith s0 [34] then
        (case json_string_body (drop 1 s0) of
           None \<Rightarrow> None
         | Some (k, r) \<Rightarrow>
             (let r0 = json_ws r in
              if startswith r0 [58] then
                (case json_value fuel (drop 1 r0) of
                   None \<Rightarrow> None
                 | Some (v, r1) \<Rightarrow>
                     (let r2 = json_ws r1 in
                      if startswith r2 [44] then
                        (case json_members fuel (drop 1 r2) of
                           None \<Rightarrow> None
                         | Some (ms, r3) \<Rightarrow> Some ((k, v) # ms, r3))
                      else if startswith r2 [125] then Some ([(k, v)], drop 1 r2)
                      else None))
              else None))
      else None)"

definition ref_json_loads :: "pystr \<Rightarrow> exn + json" where
  "ref_json_loads s =
     (case json_value (s @ s @ [0, 0]) s of
        None \<Rightarrow> Inl (JSONDecodeError (lit ''Expecting value''))
      | Some (v, r) \<Rightarrow>
          if json_ws r = [] then Inr v else Inl (JSONDecodeError (lit ''Extra data'')))"

definition ref_coerce_str :: "json \<Rightarrow> pystr option" where
  "ref_coerce_str v = (case v of JStr x \<Rightarrow> Some x | _ \<Rightarrow> None)"

definition ref_coerce_float :: "json \<Rightarrow> real option" where
  "ref_coerce_float v =
     (case v of
        JFloat x \<Rightarrow> Some x
      | JInt i \<Rightarrow> Some (of_int i)
      | JBool b \<Rightarrow> Some (if b then 1 else 0)
      | _ \<Rightarrow> None)"

definition ref_coerce_bool :: "json \<Rightarrow> bool option" where
  "ref_coerce_bool v =
     (case v of
        JBool b \<Rightarrow> Some b
      | JInt i \<Rightarrow> if i = 0 then Some False else if i = 1 then Some True else None
      | JFloat x \<Rightarrow> if x = 0 then Some False else if x = 1 then Some True else None
      | _ \<Rightarrow> None)"

definition ref_coerce_int :: "json \<Rightarrow> int option" where
  "ref_coerce_int v =
     (case v of
        JInt i \<Rightarrow> Some i
      | JBool b \<Rightarrow> Some (if b then 1 else 0)
      | JFloat x \<Rightarrow> if x = of_int (floor x) then Some (floor x) else None
      | _ \<Rightarrow> None)"

definition ref_str_of_exn :: "exn \<Rightarrow> pystr" where
  "ref_str_of_exn err =
     (case err of
        FileNotFoundError m \<Rightarrow> m
      | ValueError m \<Rightarrow> m
      | JSONDecodeError m \<Rightarrow> m
      | TypeError m \<Rightarrow> m
      | ValidationError es \<Rightarrow> lit ''validation error for ExtractedPrescription''
      | RemoteCallFailed m \<Rightarrow> m
      | OtherError m \<Rightarrow> m)"

definition py_lib :: pylib where
  "py_lib =
     \<lparr>is_space = ref_is_space, is_digit = ref_is_digit,
      ci_eq = (\<lambda>p c. ref_lower p = ref_lower c), str_lower = map ref_lower,
      path_parent_name = ref_path_parent_name, path_name = ref_path_name,
      path_str = ref_path_str, json_loads = ref_json_loads,
      coerce_str = ref_coerce_str, coerce_float = ref_coerce_float,
      coerce_bool = ref_coerce_bool, coerce_int = ref_coerce_int,
      str_of_exn = ref_str_of_exn,
      header_search = (\<lambda>table i txt. None), title_match = (\<lambda>n. None)\<rparr>"

section \<open>Notions of the specification and sample collaborators\<close>

text \<open>
  The directory hint of the classifier: a keyword in the lowered name of the folder of the
  image. The order of the document types by clarity is that of the specification:
  handwritten, mixed, printed.
\<close>

definition hint_has :: "pylib \<Rightarrow> pystr \<Rightarrow> string \<Rightarrow> bool" where
  "hint_has lib image_path kw = str_contains (lit kw) (str_lower lib (path_parent_name lib image_path))"

definition no_hint :: "pylib \<Rightarrow> pystr \<Rightarrow> bool" where
  "no_hint lib image_path =
     (\<not> hint_has lib image_path ''handwrit'' \<and> \<not> hint_has lib image_path ''print''
      \<and> \<not> hint_has lib image_path ''mixed'' \<and> \<not> hint_has lib image_path ''screen''
      \<and> \<not> hint_has lib image_path ''digital'')"

definition clarity :: "pystr \<Rightarrow> nat" where
  "clarity t =
     (if t = lit ''handwritten'' then 0 else if t = lit ''mixed'' then 1
      else if t = lit ''printed'' then 2 else 3)"

text \<open>
  A state with no invocation made, and an OCR engine that finds no file at one path and
  reads an empty text with confidence 0.8 from every other image, without any extractor.
\<close>

definition calls0 :: calls where
  "calls0 = \<lparr>text_calls = 0, vision_calls = 0, signature_calls = 0\<rparr>"

definition demo_ocr :: "pystr \<Rightarrow> exn + (pystr \<times> real \<times> real)" where
  "demo_ocr pth =
     (if pth = lit ''scans/missing.png'' then Inl (FileNotFoundError (lit ''Image not found''))
      else Inr ([], 0.8, 0.25))"

definition env_local :: env where
  "env_local = \<lparr>ocr_extract_with_fallback = demo_ocr, vision = None, llm_text = None\<rparr>"

text \<open>
  The extraction method that each branch of the orchestrator writes into the record and
  into the metadata, and a text service whose response is a fenced JSON object with an
  empty list of medications.
\<close>

definition record_method :: "tier \<Rightarrow> pystr" where
  "record_method t =
     (case t of
        ImageAnalysis \<Rightarrow> lit ''ocr_plus_llm''
      | TextAnalysis \<Rightarrow> lit ''ocr_plus_llm_text''
      | LocalFallback \<Rightarrow> lit ''ocr_only'')"

definition metadata_method :: "tier \<Rightarrow> pystr" where
  "metadata_method t =
     (case t of
        ImageAnalysis \<Rightarrow> lit ''ocr_plus_llm_vision''
      | TextAnalysis \<Rightarrow> lit ''ocr_plus_llm_text''
      | LocalFallback \<Rightarrow> lit ''ocr_only_regex'')"

definition empty_prescription_response :: pystr where
  "empty_prescription_response =
     lit ''```json{\"document_type\":\"prescription\",\"medications\":[]}```''"

definition env_text :: env where
  "env_text =
     \<lparr>ocr_extract_with_fallback = demo_ocr, vision = None,
      llm_text = Some (\<lambda>n txt hint. (Inr empty_prescription_response, 1.5))\<rparr>"

text \<open>
  A signature attempt fails when the remote call raises, when no JSON is extracted from
  the response, or when the extracted value is rejected by the schema.
\<close>

definition signature_attempt_fails :: "pylib \<Rightarrow> reply \<Rightarrow> bool" where
  "signature_attempt_fails lib r =
     (case fst r of
        Inl err \<Rightarrow> True
      | Inr response_text \<Rightarrow>
          (case extract_json_from_response lib response_text of
             Inl err \<Rightarrow> True
           | Inr raw_json \<Rightarrow> isl (construct_SignatureInfo lib raw_json)))"

text \<open>A vision service whose every invocation raises, beside the sample OCR engine.\<close>

definition failing_vision_client :: vision_client where
  "failing_vision_client =
     \<lparr>image_reply = (\<lambda>n pth txt c. (Inl (RemoteCallFailed (lit ''service unavailable'')), 2)),
      signature_reply = (\<lambda>n pth. (Inl (RemoteCallFailed (lit ''service unavailable'')), 1))\<rparr>"

definition env_vision_failing :: env where
  "env_vision_failing =
     \<lparr>ocr_extract_with_fallback = demo_ocr, vision = Some failing_vision_client,
      llm_text = None\<rparr>"

text \<open>
  An extraction attempt fails when the remote call raises, when no JSON is extracted from
  the response, or when the extracted value is rejected by the schema. The retry loop
  goes on after an attempt whose document type is "unknown", which every failed attempt
  gives.
\<close>

definition extraction_attempt_fails :: "pylib \<Rightarrow> reply \<Rightarrow> bool" where
  "extraction_attempt_fails lib r =
     (case fst r of
        Inl err \<Rightarrow> True
      | Inr response_text \<Rightarrow>
          (case extract_json_from_response lib response_text of
             Inl err \<Rightarrow> True
           | Inr raw_json \<Rightarrow> isl (construct_ExtractedPrescription lib raw_json)))"

definition unresolved :: "pylib \<Rightarrow> text_client \<Rightarrow> pystr \<Rightarrow> pystr option \<Rightarrow> nat \<Rightarrow> bool" where
  "unresolved lib client otxt hint n =
     (document_type (fst (fst (llm_extract lib client otxt hint n))) = lit ''unknown'')"

text \<open>A text service whose every invocation raises, beside the sample OCR engine.\<close>

definition failing_text_client :: text_client where
  "failing_text_client = (\<lambda>n otxt hint. (Inl (RemoteCallFailed (lit ''service unavailable'')), 2))"

definition env_text_failing :: env where
  "env_text_failing =
     \<lparr>ocr_extract_with_fallback = demo_ocr, vision = None, llm_text = Some failing_text_client\<rparr>"

text \<open>
  The dictionary that \<^verbatim>\<open>extract_from_image\<close> validates: the extracted object with
  the three entries the extractor assigns. An image attempt fails when the remote call
  raises (or the image cannot be read), when no JSON object is extracted from the
  response, or when the dictionary is rejected by the schema.
\<close>

definition with_vision_metadata :: "real option \<Rightarrow> pydict \<Rightarrow> pydict" where
  "with_vision_metadata ocr_conf d =
     (let d1 = dict_set (lit ''extraction_method'') (JStr (lit ''llm_vision'')) d;
          d2 = dict_set (lit ''llm_enhanced'') (JBool True) d1
      in case ocr_conf of
           None \<Rightarrow> d2
         | Some c \<Rightarrow> if c \<noteq> 0 then dict_set (lit ''ocr_confidence'') (JFloat c) d2 else d2)"

definition image_attempt_fails :: "pylib \<Rightarrow> real option \<Rightarrow> reply \<Rightarrow> bool" where
  "image_attempt_fails lib ocr_conf r =
     (case fst r of
        Inl err \<Rightarrow> True
      | Inr response_text \<Rightarrow>
          (case extract_json_from_response lib response_text of
             Inl err \<Rightarrow> True
           | Inr raw_json \<Rightarrow>
               (case raw_json of
                  JObj d \<Rightarrow>
                    isl (construct_ExtractedPrescription lib (JObj (with_vision_metadata ocr_conf d)))
                | _ \<Rightarrow> True)))"

text \<open>
  The bounds of the schema: a confidence is absent or lies in the closed interval from 0
  to 1 (\<^verbatim>\<open>Field(default=None, ge=0.0, le=1.0)\<close>). \<^verbatim>\<open>confidences_ok\<close> collects every field
  of a record that carries this constraint: \<^verbatim>\<open>confidence_score\<close> and \<^verbatim>\<open>ocr_confidence\<close>
  of the record, \<^verbatim>\<open>confidence\<close> of the signature of the document and of the signature
  embedded in the doctor, and \<^verbatim>\<open>ocr_confidence\<close> of the handwriting analysis.
\<close>

definition unit_ok :: "real option \<Rightarrow> bool" where
  "unit_ok x = (case x of None \<Rightarrow> True | Some c \<Rightarrow> 0 \<le> c \<and> c \<le> 1)"

definition signature_ok :: "SignatureInfo option \<Rightarrow> bool" where
  "signature_ok s = (case s of None \<Rightarrow> True | Some i \<Rightarrow> unit_ok (confidence i))"

definition confidences_ok :: "ExtractedPrescription \<Rightarrow> bool" where
  "confidences_ok p =
     (unit_ok (confidence_score p) \<and> unit_ok (ocr_confidence p)
      \<and> signature_ok (doctor_signature p)
      \<and> signature_ok (doctor_info_signature (doctor p))
      \<and> (case handwriting_analysis p of
            None \<Rightarrow> True
          | Some h \<Rightarrow> unit_ok (handwriting_ocr_confidence h)))"

section \<open>Properties\<close>

text \<open>
  Claim C1. For every OCR confidence, document type, override flag and availability of
  the two remote strategies, the branch taken by the orchestrator is the tier that the
  five first-match-wins rules of the router give, and it is one of the three tiers.
\<close>

theorem router_first_match_wins:
  "tier_of (choose_strategy override conf doc_type vis llm)
     = spec_router conf doc_type override (vis \<noteq> None) (llm \<noteq> None)
   \<and> (tier_of (choose_strategy override conf doc_type vis llm) = LocalFallback
      \<or> tier_of (choose_strategy override conf doc_type vis llm) = TextAnalysis
      \<or> tier_of (choose_strategy override conf doc_type vis llm) = ImageAnalysis)"
proof -
  have eq: "tier_of (choose_strategy override conf doc_type vis llm)
     = spec_router conf doc_type override (vis \<noteq> None) (llm \<noteq> None)"
    by (cases vis; cases llm)
      (simp_all add: choose_strategy_def spec_router_def needs_vision_enhancement_def
        HANDWRITING_CONFIDENCE_THRESHOLD_def)
  have total: "tier_of (choose_strategy override conf doc_type vis llm) = LocalFallback
      \<or> tier_of (choose_strategy override conf doc_type vis llm) = TextAnalysis
      \<or> tier_of (choose_strategy override conf doc_type vis llm) = ImageAnalysis"
    by (cases "tier_of (choose_strategy override conf doc_type vis llm)") simp_all
  from eq total show ?thesis by simp
qed

lemma lit_distinct:
  "lit ''handwritten'' \<noteq> lit ''mixed''" "lit ''handwritten'' \<noteq> lit ''printed''"
  "lit ''mixed'' \<noteq> lit ''printed''" "lit ''mixed'' \<noteq> lit ''handwritten''"
  "lit ''printed'' \<noteq> lit ''handwritten''" "lit ''printed'' \<noteq> lit ''mixed''"
  by (simp_all add: lit_def)

lemma classify_no_hint:
  "no_hint lib p \<Longrightarrow> classify_prescription_type lib p c =
     (if c < 0.5 then lit ''handwritten'' else if c < 0.7 then lit ''mixed'' else lit ''printed'')"
  by (simp add: classify_prescription_type_def no_hint_def hint_has_def)

text \<open>
  Claim C8. A keyword in the name of the image's folder decides the type whatever the
  confidence (handwrit, then print, then mixed, then screen or digital); without a
  keyword the type follows the confidence with the breakpoints 0.5 and 0.7; the result
  is always one of the four types; and without a keyword a lower confidence is never
  classified into a clearer type than a higher one.
\<close>

theorem classifier_hint_then_confidence:
  "(hint_has lib p ''handwrit'' \<longrightarrow> classify_prescription_type lib p c = lit ''handwritten'')
   \<and> (\<not> hint_has lib p ''handwrit'' \<and> hint_has lib p ''print''
        \<longrightarrow> classify_prescription_type lib p c = lit ''printed'')
   \<and> (\<not> hint_has lib p ''handwrit'' \<and> \<not> hint_has lib p ''print'' \<and> hint_has lib p ''mixed''
        \<longrightarrow> classify_prescription_type lib p c = lit ''mixed'')
   \<and> (\<not> hint_has lib p ''handwrit'' \<and> \<not> hint_has lib p ''print'' \<and> \<not> hint_has lib p ''mixed''
        \<and> (hint_has lib p ''screen'' \<or> hint_has lib p ''digital'')
        \<longrightarrow> classify_prescription_type lib p c = lit ''digital'')
   \<and> (no_hint lib p \<and> c < 0.5 \<longrightarrow> classify_prescription_type lib p c = lit ''handwritten'')
   \<and> (no_hint lib p \<and> 0.5 \<le> c \<and> c < 0.7 \<longrightarrow> classify_prescription_type lib p c = lit ''mixed'')
   \<and> (no_hint lib p \<and> 0.7 \<le> c \<longrightarrow> classify_prescription_type lib p c = lit ''printed'')
   \<and> (no_hint lib p \<and> no_hint lib p' \<and> c \<le> c'
        \<longrightarrow> clarity (classify_prescription_type lib p c)
            \<le> clarity (classify_prescription_type lib p' c'))
   \<and> classify_prescription_type lib p c \<in> set PrescriptionType_values"
proof -
  have hints: "(hint_has lib p ''handwrit'' \<longrightarrow> classify_prescription_type lib p c = lit ''handwritten'')
   \<and> (\<not> hint_has lib p ''handwrit'' \<and> hint_has lib p ''print''
        \<longrightarrow> classify_prescription_type lib p c = lit ''printed'')
   \<and> (\<not> hint_has lib p ''handwrit'' \<and> \<not> hint_has lib p ''print'' \<and> hint_has lib p ''mixed''
        \<longrightarrow> classify_prescription_type lib p c = lit ''mixed'')
   \<and> (\<not> hint_has lib p ''handwrit'' \<and> \<not> hint_has lib p ''print'' \<and> \<not> hint_has lib p ''mixed''
        \<and> (hint_has lib p ''screen'' \<or> hint_has lib p ''digital'')
        \<longrightarrow> classify_prescription_type lib p c = lit ''digital'')"
    by (simp add: classify_prescription_type_def hint_has_def)
  have conf: "(no_hint lib p \<and> c < 0.5 \<longrightarrow> classify_prescription_type lib p c = lit ''handwritten'')
   \<and> (no_hint lib p \<and> 0.5 \<le> c \<and> c < 0.7 \<longrightarrow> classify_prescription_type lib p c = lit ''mixed'')
   \<and> (no_hint lib p \<and> 0.7 \<le> c \<longrightarrow> classify_prescription_type lib p c = lit ''printed'')"
    by (auto simp: classify_no_hint)
  have mono: "no_hint lib p \<and> no_hint lib p' \<and> c \<le> c'
        \<longrightarrow> clarity (classify_prescription_type lib p c)
            \<le> clarity (classify_prescription_type lib p' c')"
    by (auto simp: classify_no_hint clarity_def lit_distinct)
  have total: "classify_prescription_type lib p c \<in> set PrescriptionType_values"
    by (simp add: classify_prescription_type_def PrescriptionType_values_def Let_def)
  from hints conf mono total show ?thesis by blast
qed

theorem classifier_hint_then_confidence_witness:
  "classify_prescription_type py_lib (lit ''data/Handwritten_set/rx1.png'') 0.9 = lit ''handwritten''
   \<and> classify_prescription_type py_lib (lit ''scans/rx1.png'') 0.45 = lit ''handwritten''
   \<and> classify_prescription_type py_lib (lit ''scans/rx1.png'') 0.6 = lit ''mixed''
   \<and> classify_prescription_type py_lib (lit ''scans/rx1.png'') 0.8 = lit ''printed''
   \<and> clarity (classify_prescription_type py_lib (lit ''scans/rx1.png'') 0.45)
       \<le> clarity (classify_prescription_type py_lib (lit ''scans/rx1.png'') 0.8)"
proof -
  have h1: "hint_has py_lib (lit ''data/Handwritten_set/rx1.png'') ''handwrit''"
    by (simp add: hint_has_def py_lib_def ref_path_parent_name_def path_parts_def lit_def
        ref_lower_def)
  have h2: "no_hint py_lib (lit ''scans/rx1.png'')"
    by (simp add: no_hint_def hint_has_def py_lib_def ref_path_parent_name_def path_parts_def
        lit_def ref_lower_def)
  have a: "classify_prescription_type py_lib (lit ''data/Handwritten_set/rx1.png'') 0.9 = lit ''handwritten''"
    using h1 classifier_hint_then_confidence [of py_lib "lit ''data/Handwritten_set/rx1.png''" "0.9"]
    by blast
  have b: "classify_prescription_type py_lib (lit ''scans/rx1.png'') 0.45 = lit ''handwritten''"
    using h2 classifier_hint_then_confidence [of py_lib "lit ''scans/rx1.png''" "0.45"]
    by auto
  have c: "classify_prescription_type py_lib (lit ''scans/rx1.png'') 0.6 = lit ''mixed''"
    using h2 classifier_hint_then_confidence [of py_lib "lit ''scans/rx1.png''" "0.6"]
    by auto
  have d: "classify_prescription_type py_lib (lit ''scans/rx1.png'') 0.8 = lit ''printed''"
    using h2 classifier_hint_then_confidence [of py_lib "lit ''scans/rx1.png''" "0.8"]
    by auto
  have e: "clarity (classify_prescription_type py_lib (lit ''scans/rx1.png'') 0.45)
       \<le> clarity (classify_prescription_type py_lib (lit ''scans/rx1.png'') 0.8)"
    using h2 classifier_hint_then_confidence
      [of py_lib "lit ''scans/rx1.png''" "0.45" "lit ''scans/rx1.png''" "0.8"]
    by auto
  from a b c d e show ?thesis by blast
qed

lemma process_batch_length:
  "length (fst (process_batch lib e paths fv st)) = length paths"
  by (induction paths arbitrary: st) (simp_all add: split_def Let_def)

lemma process_batch_nth:
  "i < length paths \<Longrightarrow>
     fst (process_batch lib e paths fv st) ! i =
       batch_entry lib (paths ! i)
         (fst (process lib e (paths ! i) fv (snd (process_batch lib e (take i paths) fv st))))"
proof (induction paths arbitrary: st i)
  case Nil
  then show ?case by simp
next
  case (Cons path paths)
  show ?case
  proof (cases i)
    case 0
    then show ?thesis by (simp add: split_def Let_def)
  next
    case (Suc j)
    with Cons.prems have "j < length paths" by simp
    from Cons.IH [OF this] Suc show ?thesis by (simp add: split_def Let_def)
  qed
qed

text \<open>
  Claim C9. Batch processing returns one entry per path, in the order of the paths: the
  entry at a position is the result of processing the path at that position (in the state
  the earlier documents left), where an exception becomes the default record with a
  dictionary that holds the error's text and the path, and the remaining paths are
  processed all the same.
\<close>

theorem process_batch_entry_per_path:
  "length (fst (process_batch lib e paths fv st)) = length paths
   \<and> (\<forall>i < length paths.
         fst (process_batch lib e paths fv st) ! i =
           batch_entry lib (paths ! i)
             (fst (process lib e (paths ! i) fv (snd (process_batch lib e (take i paths) fv st)))))
   \<and> (\<forall>err. batch_entry lib path (Inl err) =
         (ExtractedPrescription_default,
          [''error'' \<mapsto> MStr (str_of_exn lib err), ''file_path'' \<mapsto> MStr path]))
   \<and> (\<forall>pm. batch_entry lib path (Inr pm) = pm)"
proof -
  have dflt: "ExtractedPrescription_default\<lparr>document_type := lit ''prescription''\<rparr>
      = ExtractedPrescription_default"
    by (simp add: ExtractedPrescription_default_def)
  show ?thesis
    by (simp add: process_batch_length process_batch_nth batch_entry_def dflt)
qed

lemma process_missing:
  "process py_lib env_local (lit ''scans/missing.png'') False calls0
     = (Inl (FileNotFoundError (lit ''Image not found'')), calls0)"
  by (simp add: process_def env_local_def demo_ocr_def py_lib_def ref_path_str_def
      path_parts_def path_root_def lit_def)

theorem process_batch_entry_per_path_witness:
  "length (fst (process_batch py_lib env_local
       [lit ''scans/missing.png'', lit ''scans/blank.png''] False calls0)) = 2
   \<and> fst (process_batch py_lib env_local
       [lit ''scans/missing.png'', lit ''scans/blank.png''] False calls0) ! 0
       = (ExtractedPrescription_default,
          [''error'' \<mapsto> MStr (lit ''Image not found''),
           ''file_path'' \<mapsto> MStr (lit ''scans/missing.png'')])
   \<and> fst (process_batch py_lib env_local
       [lit ''scans/missing.png'', lit ''scans/blank.png''] False calls0) ! 1
       = batch_entry py_lib (lit ''scans/blank.png'')
           (fst (process py_lib env_local (lit ''scans/blank.png'') False calls0))"
proof -
  let ?paths = "[lit ''scans/missing.png'', lit ''scans/blank.png'']"
  note t = process_batch_entry_per_path
    [of py_lib env_local ?paths False calls0 "lit ''scans/missing.png''"]
  have len: "length (fst (process_batch py_lib env_local ?paths False calls0)) = 2"
    using t by simp
  have "(0::nat) < length ?paths" by simp
  with t have "fst (process_batch py_lib env_local ?paths False calls0) ! 0 =
      batch_entry py_lib (?paths ! 0)
        (fst (process py_lib env_local (?paths ! 0) False
           (snd (process_batch py_lib env_local (take 0 ?paths) False calls0))))"
    by blast
  then have e0: "fst (process_batch py_lib env_local ?paths False calls0) ! 0
       = (ExtractedPrescription_default,
          [''error'' \<mapsto> MStr (lit ''Image not found''),
           ''file_path'' \<mapsto> MStr (lit ''scans/missing.png'')])"
    using t by (simp add: process_missing) (simp add: py_lib_def ref_str_of_exn_def)
  have "(1::nat) < length ?paths" by simp
  with t have "fst (process_batch py_lib env_local ?paths False calls0) ! 1 =
      batch_entry py_lib (?paths ! 1)
        (fst (process py_lib env_local (?paths ! 1) False
           (snd (process_batch py_lib env_local (take 1 ?paths) False calls0))))"
    by blast
  then have e1: "fst (process_batch py_lib env_local ?paths False calls0) ! 1
       = batch_entry py_lib (lit ''scans/blank.png'')
           (fst (process py_lib env_local (lit ''scans/blank.png'') False calls0))"
    by (simp add: process_missing)
  from len e0 e1 show ?thesis by blast
qed

lemma py_lib_simps:
  "is_space py_lib = ref_is_space" "is_digit py_lib = ref_is_digit"
  "ci_eq py_lib = (\<lambda>p c. ref_lower p = ref_lower c)" "str_lower py_lib = map ref_lower"
  "path_parent_name py_lib = ref_path_parent_name" "path_name py_lib = ref_path_name"
  "path_str py_lib = ref_path_str" "json_loads py_lib = ref_json_loads"
  "coerce_str py_lib = ref_coerce_str" "coerce_float py_lib = ref_coerce_float"
  "coerce_bool py_lib = ref_coerce_bool" "coerce_int py_lib = ref_coerce_int"
  "str_of_exn py_lib = ref_str_of_exn" "header_search py_lib = (\<lambda>table i txt. None)"
  "title_match py_lib = (\<lambda>n. None)"
  by (simp_all add: py_lib_def)

lemma env_local_simps:
  "ocr_extract_with_fallback env_local = demo_ocr" "vision env_local = None"
  "llm_text env_local = None"
  by (simp_all add: env_local_def)

lemma find_first_match_py_lib: "find_first_match py_lib txt table = None"
proof -
  have "first_match_in py_lib table txt is = None" for "is"
    by (induction "is") (simp_all add: py_lib_simps)
  then show ?thesis by (simp add: find_first_match_def)
qed

lemma extract_medications_blank: "extract_medications py_lib [] = []"
  by (simp add: extract_medications_def List.map_filter_def strip_def py_lib_simps
      parse_medication_line_def stripped_line_def sub_prefix_def re_match_def
      enumerator_rx_def bullet_rx_def Plus_def)

lemma parse_blank:
  "\<exists>p. parse py_lib [] 0.8 = Inr p \<and> document_type p = lit ''prescription''
      \<and> medications p = [] \<and> doctor_signature p = None"
  by (simp add: parse_def extract_medications_blank Let_def ExtractedPrescription_default_def)

lemma ref_path_str_blank: "ref_path_str (lit ''scans/blank.png'') = lit ''scans/blank.png''"
  by (simp add: ref_path_str_def path_parts_def path_root_def lit_def)



lemma default_record_facts:
  "document_type ExtractedPrescription_default = lit ''prescription''"
  "document_type ExtractedPrescription_default \<noteq> lit ''unknown''"
  "medications ExtractedPrescription_default = []"
  "doctor_signature ExtractedPrescription_default = None"
  by (simp_all add: ExtractedPrescription_default_def lit_def)



lemma signature_stage_method:
  "signature_stage lib e pth p stages st = ((p', stages'), st')
     \<Longrightarrow> extraction_method p' = extraction_method p"
  by (auto simp: signature_stage_def Let_def split: option.splits if_splits prod.splits)

lemma parse_method:
  "parse lib txt c = Inr p \<Longrightarrow> extraction_method p = Some (lit ''ocr_only'')"
  by (auto simp: parse_def Let_def split: if_splits)

lemma primary_stage_method:
  "primary_stage lib e pth fv txt c ptype md stages st = (Inr (p, md', stages'), st')
     \<Longrightarrow> extraction_method p
           = Some (record_method (tier_of (choose_strategy fv c ptype (vision e) (llm_text e))))
         \<and> md' ''extraction_method''
           = Some (MStr (metadata_method (tier_of (choose_strategy fv c ptype (vision e) (llm_text e)))))"
  by (cases "choose_strategy fv c ptype (vision e) (llm_text e)")
    (auto simp: primary_stage_def record_method_def metadata_method_def Let_def
      dest: parse_method split: prod.splits sum.splits)

lemma process_Inr_cases:
  assumes "fst (process lib e path fv st) = Inr (p, md)"
  obtains otxt c t p1 md1 stages1 st1 stages3 st3 where
    "ocr_extract_with_fallback e (path_str lib path) = Inr (otxt, c, t)"
    "primary_stage lib e (path_str lib path) fv otxt c (classify_prescription_type lib path c)
        (initial_metadata lib path)
        [OcrStage t c (length otxt)] st = (Inr (p1, md1, stages1), st1)"
    "signature_stage lib e (path_str lib path) (p1\<lparr>ocr_text := Some otxt\<rparr>) stages1 st1
        = ((p, stages3), st3)"
    "md ''extraction_method'' = md1 ''extraction_method''"
    "snd (process lib e path fv st) = st3"
  using assms unfolding process_def Let_def
  by (auto split: sum.splits prod.splits)

lemma process_extraction_method:
  assumes "ocr_extract_with_fallback e (path_str lib path) = Inr (txt, c, t)"
    and "fst (process lib e path fv st) = Inr (p, md)"
  shows "extraction_method p
           = Some (record_method (tier_of (choose_strategy fv c
                (classify_prescription_type lib path c) (vision e) (llm_text e))))
       \<and> md ''extraction_method''
           = Some (MStr (metadata_method (tier_of (choose_strategy fv c
                (classify_prescription_type lib path c) (vision e) (llm_text e)))))
"
proof -
  from assms(2) obtain otxt c' t' p1 md1 stages1 st1 stages3 st3 where
    o: "ocr_extract_with_fallback e (path_str lib path) = Inr (otxt, c', t')"
    and pr: "primary_stage lib e (path_str lib path) fv otxt c' (classify_prescription_type lib path c')
        (initial_metadata lib path)
        [OcrStage t' c' (length otxt)] st = (Inr (p1, md1, stages1), st1)"
    and sg: "signature_stage lib e (path_str lib path) (p1\<lparr>ocr_text := Some otxt\<rparr>) stages1 st1
        = ((p, stages3), st3)"
    and md: "md ''extraction_method'' = md1 ''extraction_method''"
    by (rule process_Inr_cases)
  from o assms(1) have eq: "otxt = txt" "c' = c" by simp_all
  from signature_stage_method [OF sg] have m: "extraction_method p = extraction_method p1"
    by simp
  from primary_stage_method [OF pr] m md eq
  have main: "extraction_method p
           = Some (record_method (tier_of (choose_strategy fv c
                (classify_prescription_type lib path c) (vision e) (llm_text e))))"
    "md ''extraction_method''
           = Some (MStr (metadata_method (tier_of (choose_strategy fv c
                (classify_prescription_type lib path c) (vision e) (llm_text e)))))"
    by simp_all
  from main show ?thesis by simp
qed

text \<open>
  Claim C3 (amended). The extraction method of a processed document is decided by the
  tier alone: the record holds "ocr_only", "ocr_plus_llm_text" or "ocr_plus_llm" and the
  metadata "ocr_only_regex", "ocr_plus_llm_text" or "ocr_plus_llm_vision" for the
  local, the text and the image tier; the signature stage changes neither, so there is no
  combined form; for the text tier the method is "ocr_plus_llm_text".
\<close>

theorem extraction_method_by_tier:
  assumes "ocr_extract_with_fallback e (path_str lib path) = Inr (txt, c, t)"
    and "fst (process lib e path fv st) = Inr (p, md)"
  shows "extraction_method p
           = Some (record_method (tier_of (choose_strategy fv c
                (classify_prescription_type lib path c) (vision e) (llm_text e))))
       \<and> md ''extraction_method''
           = Some (MStr (metadata_method (tier_of (choose_strategy fv c
                (classify_prescription_type lib path c) (vision e) (llm_text e)))))
       \<and> record_method TextAnalysis = lit ''ocr_plus_llm_text''
       \<and> extraction_method p \<in> {Some (lit ''ocr_only''), Some (lit ''ocr_plus_llm_text''),
                                   Some (lit ''ocr_plus_llm'')}"
proof -
  note main = process_extraction_method [OF assms]
  have "extraction_method p \<in> {Some (lit ''ocr_only''), Some (lit ''ocr_plus_llm_text''),
                                   Some (lit ''ocr_plus_llm'')}"
    using main
    by (cases "tier_of (choose_strategy fv c
                (classify_prescription_type lib path c) (vision e) (llm_text e))")
      (simp_all add: record_method_def)
  with main show ?thesis by (simp add: record_method_def)
qed

lemma env_text_simps:
  "ocr_extract_with_fallback env_text = demo_ocr" "vision env_text = None"
  "llm_text env_text = Some (\<lambda>n txt hint. (Inr empty_prescription_response, 1.5))"
  by (simp_all add: env_text_def)

lemma demo_ocr_blank: "demo_ocr (lit ''scans/blank.png'') = Inr ([], 0.8, 0.25)"
  by (simp add: demo_ocr_def lit_def)

lemma classify_blank:
  "classify_prescription_type py_lib (lit ''scans/blank.png'') 0.8 = lit ''printed''"
  by (simp add: classify_prescription_type_def py_lib_simps ref_path_parent_name_def
      path_parts_def lit_def ref_lower_def)

lemma process_remote_succeeds:
  assumes "ocr_extract_with_fallback e (path_str lib path) = Inr (otxt, c, t)"
    and "tier_of (choose_strategy fv c (classify_prescription_type lib path c) (vision e) (llm_text e))
           \<noteq> LocalFallback"
  shows "\<exists>p md. fst (process lib e path fv st) = Inr (p, md)"
  using assms unfolding process_def primary_stage_def Let_def
  by (cases "choose_strategy fv c (classify_prescription_type lib path c) (vision e) (llm_text e)")
    (auto split: prod.splits)

lemma tier_blank_env_text:
  "tier_of (choose_strategy False 0.8 (classify_prescription_type py_lib (lit ''scans/blank.png'') 0.8)
       (vision env_text) (llm_text env_text)) = TextAnalysis"
  by (simp add: classify_blank env_text_simps choose_strategy_def needs_vision_enhancement_def
      HANDWRITING_CONFIDENCE_THRESHOLD_def lit_def)

theorem extraction_method_by_tier_witness:
  "(case fst (process py_lib env_text (lit ''scans/blank.png'') False calls0) of
      Inl err \<Rightarrow> False
    | Inr (p, md) \<Rightarrow>
        extraction_method p = Some (lit ''ocr_plus_llm_text'')
        \<and> md ''extraction_method'' = Some (MStr (lit ''ocr_plus_llm_text'')))"
proof -
  have o: "ocr_extract_with_fallback env_text (path_str py_lib (lit ''scans/blank.png''))
             = Inr ([], 0.8, 0.25)"
    by (simp add: env_text_simps py_lib_simps ref_path_str_blank demo_ocr_blank)
  from process_remote_succeeds [OF o, of False calls0] tier_blank_env_text
  obtain p md where r: "fst (process py_lib env_text (lit ''scans/blank.png'') False calls0) = Inr (p, md)"
    by auto
  from extraction_method_by_tier [OF o r] tier_blank_env_text r show ?thesis
    by (simp add: record_method_def metadata_method_def)
qed

theorem extraction_method_text_tier_counterexample:
  "tier_of (choose_strategy False 0.8 (classify_prescription_type py_lib (lit ''scans/blank.png'') 0.8)
       (vision env_text) (llm_text env_text)) = TextAnalysis
   \<and> (case fst (process py_lib env_text (lit ''scans/blank.png'') False calls0) of
        Inl err \<Rightarrow> False
      | Inr (p, md) \<Rightarrow>
          extraction_method p = Some (lit ''ocr_plus_llm_text'')
          \<and> extraction_method p \<noteq> Some (lit ''remote_text_structuring''))"
proof -
  have o: "ocr_extract_with_fallback env_text (path_str py_lib (lit ''scans/blank.png''))
             = Inr ([], 0.8, 0.25)"
    by (simp add: env_text_simps py_lib_simps ref_path_str_blank demo_ocr_blank)
  from process_remote_succeeds [OF o, of False calls0] tier_blank_env_text
  obtain p md where r: "fst (process py_lib env_text (lit ''scans/blank.png'') False calls0) = Inr (p, md)"
    by auto
  from process_extraction_method [OF o r] tier_blank_env_text r show ?thesis
    by (simp add: record_method_def lit_def)
qed

lemma process_after_primary:
  assumes "ocr_extract_with_fallback e (path_str lib path) = Inr (otxt, c, t)"
    and "primary_stage lib e (path_str lib path) fv otxt c (classify_prescription_type lib path c)
           (initial_metadata lib path) [OcrStage t c (length otxt)] st = (Inr (p1, md1, stages1), st1)"
  shows "\<exists>md. process lib e path fv st =
           (Inr (fst (fst (signature_stage lib e (path_str lib path)
                     (p1\<lparr>ocr_text := Some otxt\<rparr>) stages1 st1)), md),
            snd (signature_stage lib e (path_str lib path) (p1\<lparr>ocr_text := Some otxt\<rparr>) stages1 st1))"
  using assms by (simp add: process_def Let_def split_def)

lemma signature_stage_calls:
  "signature_calls (snd (signature_stage lib e pth p stages st))
     = signature_calls st + (if vision e \<noteq> None \<and> doctor_signature p = None then 1 else 0)"
  by (auto simp: signature_stage_def analyze_signature_only_def VISION_ALWAYS_FOR_SIGNATURES_def
      Let_def split_def split: option.splits sum.splits)

lemma signature_stage_skipped:
  "vision e = None \<or> doctor_signature p \<noteq> None
     \<Longrightarrow> signature_stage lib e pth p stages st = ((p, stages), st)"
  by (auto simp: signature_stage_def split: option.splits)

lemma signature_stage_attached:
  "vision e = Some v \<Longrightarrow> doctor_signature p = None \<Longrightarrow>
     doctor_signature (fst (fst (signature_stage lib e pth p stages st)))
       = Some (fst (fst (analyze_signature_only lib v pth (signature_calls st))))"
  by (simp add: signature_stage_def VISION_ALWAYS_FOR_SIGNATURES_def Let_def split_def)

lemma analyze_signature_only_failure:
  "signature_attempt_fails lib (signature_reply v n pth)
     \<Longrightarrow> analyze_signature_only lib v pth n
           = ((SignatureInfo_default, snd (signature_reply v n pth)), Suc n)"
  by (auto simp: signature_attempt_fails_def analyze_signature_only_def SignatureInfo_default_def
      Let_def split_def split: sum.splits)

text \<open>
  Claim C4 (amended). After a primary stage that returned a record, the signature stage
  is invoked (once) if and only if the image-analysis extractor is available and the
  record's signature field is empty; the document is then returned with the stage's
  result attached, and a signature set by the primary stage is kept. A failed attempt
  (a raised call, no JSON, a rejected object) yields the default signature: not present,
  every other field unset. The stage raises nothing, so the document is returned.
\<close>

theorem signature_stage_guarded:
  assumes "ocr_extract_with_fallback e (path_str lib path) = Inr (otxt, c, t)"
    and "primary_stage lib e (path_str lib path) fv otxt c (classify_prescription_type lib path c)
           (initial_metadata lib path) [OcrStage t c (length otxt)] st = (Inr (p1, md1, stages1), st1)"
  shows "\<exists>p md st'. process lib e path fv st = (Inr (p, md), st')
          \<and> (signature_calls st' = signature_calls st1 + 1
                \<longleftrightarrow> vision e \<noteq> None \<and> doctor_signature p1 = None)
          \<and> (signature_calls st' = signature_calls st1
                \<longleftrightarrow> \<not> (vision e \<noteq> None \<and> doctor_signature p1 = None))
          \<and> (\<forall>s. doctor_signature p1 = Some s \<longrightarrow> doctor_signature p = Some s)
          \<and> (vision e = None \<longrightarrow> doctor_signature p = doctor_signature p1)
          \<and> (\<forall>v. vision e = Some v \<and> doctor_signature p1 = None \<longrightarrow>
                doctor_signature p = Some (fst (fst (analyze_signature_only lib v (path_str lib path)
                                                       (signature_calls st1)))))
          \<and> (\<forall>v n pth. signature_attempt_fails lib (signature_reply v n pth) \<longrightarrow>
                fst (fst (analyze_signature_only lib v pth n)) = SignatureInfo_default)
          \<and> is_present SignatureInfo_default = False
          \<and> signer_name SignatureInfo_default = None \<and> signer_title SignatureInfo_default = None
          \<and> location SignatureInfo_default = None \<and> is_legible SignatureInfo_default = None
          \<and> confidence SignatureInfo_default = None"
proof -
  let ?p2 = "p1\<lparr>ocr_text := Some otxt\<rparr>"
  let ?sg = "signature_stage lib e (path_str lib path) ?p2 stages1 st1"
  from process_after_primary [OF assms] obtain md where
    pr: "process lib e path fv st = (Inr (fst (fst ?sg), md), snd ?sg)"
    by blast
  have sig2: "doctor_signature ?p2 = doctor_signature p1" by simp
  have calls: "signature_calls (snd ?sg)
      = signature_calls st1 + (if vision e \<noteq> None \<and> doctor_signature p1 = None then 1 else 0)"
    using signature_stage_calls [of lib e "path_str lib path" ?p2 stages1 st1] by simp
  have kept: "\<forall>s. doctor_signature p1 = Some s \<longrightarrow> doctor_signature (fst (fst ?sg)) = Some s"
    using signature_stage_skipped [of e ?p2 lib "path_str lib path" stages1 st1] by auto
  have novis: "vision e = None \<longrightarrow> doctor_signature (fst (fst ?sg)) = doctor_signature p1"
    using signature_stage_skipped [of e ?p2 lib "path_str lib path" stages1 st1] by auto
  have att: "\<forall>v. vision e = Some v \<and> doctor_signature p1 = None \<longrightarrow>
        doctor_signature (fst (fst ?sg))
          = Some (fst (fst (analyze_signature_only lib v (path_str lib path) (signature_calls st1))))"
    using signature_stage_attached [of e _ ?p2 lib "path_str lib path" stages1 st1] by simp
  have fail: "\<forall>v n pth. signature_attempt_fails lib (signature_reply v n pth) \<longrightarrow>
        fst (fst (analyze_signature_only lib v pth n)) = SignatureInfo_default"
    by (simp add: analyze_signature_only_failure)
  have dflt: "is_present SignatureInfo_default = False
      \<and> signer_name SignatureInfo_default = None \<and> signer_title SignatureInfo_default = None
      \<and> location SignatureInfo_default = None \<and> is_legible SignatureInfo_default = None
      \<and> confidence SignatureInfo_default = None"
    by (simp add: SignatureInfo_default_def)
  show ?thesis
    apply (rule exI [of _ "fst (fst ?sg)"])
    apply (rule exI [of _ md])
    apply (rule exI [of _ "snd ?sg"])
    using pr calls kept novis att fail dflt
    apply (intro conjI)
                apply simp_all
    done
qed


lemma env_vision_failing_simps:
  "ocr_extract_with_fallback env_vision_failing = demo_ocr"
  "vision env_vision_failing = Some failing_vision_client"
  "llm_text env_vision_failing = None"
  by (simp_all add: env_vision_failing_def)

lemma primary_stage_regex:
  assumes "llm_text e = None" and "vision e = None \<or> \<not> (fv \<or> needs_vision_enhancement c ptype)"
    and "parse lib otxt c = Inr p"
  shows "primary_stage lib e pth fv otxt c ptype md stages st =
           (Inr (p\<lparr>prescription_type := Some ptype\<rparr>,
                 md(''extraction_method'' \<mapsto> MStr (lit ''ocr_only_regex''),
                    ''vision_used'' \<mapsto> MBool False),
                 stages @ [OcrParsingRegexStage 0]), st)"
  using assms by (auto simp: primary_stage_def choose_strategy_def Let_def)

lemma needs_vision_printed:
  "\<not> needs_vision_enhancement 0.8 (lit ''printed'')"
  by (simp add: needs_vision_enhancement_def HANDWRITING_CONFIDENCE_THRESHOLD_def lit_def)

theorem signature_stage_guarded_witness:
  "(case process py_lib env_vision_failing (lit ''scans/blank.png'') False calls0 of
      (Inl err, st') \<Rightarrow> False
    | (Inr (p, md), st') \<Rightarrow>
        doctor_signature p = Some SignatureInfo_default \<and> signature_calls st' = 1)"
proof -
  from parse_blank obtain p0 where p0: "parse py_lib [] 0.8 = Inr p0"
    "doctor_signature p0 = None"
    by blast
  let ?e = env_vision_failing
  let ?path = "lit ''scans/blank.png''"
  have o: "ocr_extract_with_fallback ?e (path_str py_lib ?path) = Inr ([], 0.8, 0.25)"
    by (simp add: env_vision_failing_simps py_lib_simps ref_path_str_blank demo_ocr_blank)
  have pr: "primary_stage py_lib ?e (path_str py_lib ?path) False [] 0.8
              (classify_prescription_type py_lib ?path 0.8)
              (initial_metadata py_lib ?path) [OcrStage 0.25 0.8 (length ([]::pystr))] calls0
            = (Inr (p0\<lparr>prescription_type := Some (lit ''printed'')\<rparr>,
                    (initial_metadata py_lib ?path)
                      (''extraction_method'' \<mapsto> MStr (lit ''ocr_only_regex''),
                       ''vision_used'' \<mapsto> MBool False),
                    [OcrStage 0.25 0.8 (length ([]::pystr))] @ [OcrParsingRegexStage 0]), calls0)"
    unfolding classify_blank
    by (rule primary_stage_regex)
      (use p0 needs_vision_printed in \<open>simp_all add: env_vision_failing_simps\<close>)
  have f: "signature_attempt_fails py_lib
             (signature_reply failing_vision_client (signature_calls calls0) (path_str py_lib ?path))"
    by (simp add: signature_attempt_fails_def failing_vision_client_def)
  from signature_stage_guarded [OF o pr] obtain p md st' where
    r: "process py_lib ?e ?path False calls0 = (Inr (p, md), st')"
    and c: "signature_calls st' = signature_calls calls0 + 1
              \<longleftrightarrow> vision ?e \<noteq> None
                  \<and> doctor_signature (p0\<lparr>prescription_type := Some (lit ''printed'')\<rparr>) = None"
    and a: "\<forall>v. vision ?e = Some v
                  \<and> doctor_signature (p0\<lparr>prescription_type := Some (lit ''printed'')\<rparr>) = None \<longrightarrow>
                doctor_signature p = Some (fst (fst (analyze_signature_only py_lib v
                     (path_str py_lib ?path) (signature_calls calls0))))"
    and fl: "\<forall>v n pth. signature_attempt_fails py_lib (signature_reply v n pth) \<longrightarrow>
                fst (fst (analyze_signature_only py_lib v pth n)) = SignatureInfo_default"
    by blast
  from c p0 have c1: "signature_calls st' = 1"
    by (simp add: env_vision_failing_simps calls0_def)
  from a p0 fl f have s1: "doctor_signature p = Some SignatureInfo_default"
    by (simp add: env_vision_failing_simps)
  from r c1 s1 show ?thesis by simp
qed

theorem signature_stage_without_vision_counterexample:
  "(case process py_lib env_local (lit ''scans/blank.png'') False calls0 of
      (Inl err, st') \<Rightarrow> False
    | (Inr (p, md), st') \<Rightarrow>
        doctor_signature p = None \<and> signature_calls st' = signature_calls calls0)"
proof -
  from parse_blank obtain p0 where p0: "parse py_lib [] 0.8 = Inr p0"
    "doctor_signature p0 = None"
    by blast
  let ?e = env_local
  let ?path = "lit ''scans/blank.png''"
  let ?p2 = "p0\<lparr>prescription_type := Some (lit ''printed''), ocr_text := Some []\<rparr>"
  have o: "ocr_extract_with_fallback ?e (path_str py_lib ?path) = Inr ([], 0.8, 0.25)"
    by (simp add: env_local_simps py_lib_simps ref_path_str_blank demo_ocr_blank)
  have pr: "primary_stage py_lib ?e (path_str py_lib ?path) False [] 0.8
              (classify_prescription_type py_lib ?path 0.8)
              (initial_metadata py_lib ?path) [OcrStage 0.25 0.8 (length ([]::pystr))] calls0
            = (Inr (p0\<lparr>prescription_type := Some (lit ''printed'')\<rparr>,
                    (initial_metadata py_lib ?path)
                      (''extraction_method'' \<mapsto> MStr (lit ''ocr_only_regex''),
                       ''vision_used'' \<mapsto> MBool False),
                    [OcrStage 0.25 0.8 (length ([]::pystr))] @ [OcrParsingRegexStage 0]), calls0)"
    unfolding classify_blank
    by (rule primary_stage_regex) (use p0 in \<open>simp_all add: env_local_simps\<close>)
  have sk: "signature_stage py_lib ?e (path_str py_lib ?path) ?p2 stages calls0
              = ((?p2, stages), calls0)" for stages
    by (rule signature_stage_skipped) (simp add: env_local_simps)
  from process_after_primary [OF o pr] sk p0 show ?thesis
    by auto
qed

lemma unknown_document_facts:
  "document_type unknown_document = lit ''unknown''"
  "medications unknown_document = []"
  "doctor_signature unknown_document = None"
  by (simp_all add: unknown_document_def ExtractedPrescription_default_def)

lemma llm_extract_failure:
  "extraction_attempt_fails lib (client n otxt hint)
     \<Longrightarrow> llm_extract lib client otxt hint n = ((unknown_document, snd (client n otxt hint)), Suc n)"
  by (auto simp: extraction_attempt_fails_def llm_extract_def Let_def split_def split: sum.splits)

lemma llm_extract_count: "snd (llm_extract lib client otxt hint n) = Suc n"
  by (simp add: llm_extract_def Let_def split_def split: sum.splits)

lemma llm_extract_time:
  "snd (fst (llm_extract lib client otxt hint n)) = snd (client n otxt hint)"
  by (simp add: llm_extract_def Let_def split_def split: sum.splits)

lemma failure_unresolved:
  "extraction_attempt_fails lib (client n otxt hint) \<Longrightarrow> unresolved lib client otxt hint n"
  by (simp add: unresolved_def llm_extract_failure unknown_document_facts)

lemma retry_all_unresolved:
  "(\<forall>j<k. unresolved lib client otxt hint (n + j)) \<Longrightarrow>
     retry_attempts lib client otxt hint k acc n
       = ((unknown_document, acc + (\<Sum>j<k. snd (client (n + j) otxt hint))), n + k)"
proof (induction k arbitrary: acc n)
  case 0
  then show ?case by simp
next
  case (Suc k)
  from Suc.prems have first: "unresolved lib client otxt hint n"
    by (metis add.right_neutral zero_less_Suc)
  from Suc.prems have rest: "\<forall>j<k. unresolved lib client otxt hint (Suc n + j)"
    by (metis Suc_less_eq add_Suc_right add_Suc)
  obtain d t where e: "llm_extract lib client otxt hint n = ((d, t), Suc n)"
    by (metis llm_extract_count prod.collapse)
  from e first have d: "document_type d = lit ''unknown''" by (simp add: unresolved_def)
  from e have t: "t = snd (client n otxt hint)"
    using llm_extract_time [of lib client otxt hint n] by simp
  have "(\<Sum>j<Suc k. snd (client (n + j) otxt hint))
          = snd (client n otxt hint) + (\<Sum>j<k. snd (client (Suc n + j) otxt hint))"
    by (simp add: sum.lessThan_Suc_shift del: sum.lessThan_Suc)
  with Suc.IH [OF rest, of "acc + t"] e d t show ?case
    by (simp add: add.assoc)
qed

lemma retry_resolves:
  assumes "\<forall>j<i. unresolved lib client otxt hint (n + j)"
    and "\<not> unresolved lib client otxt hint (n + i)"
    and "i < k"
  shows "retry_attempts lib client otxt hint k acc n
       = ((fst (fst (llm_extract lib client otxt hint (n + i))),
           acc + (\<Sum>j<Suc i. snd (client (n + j) otxt hint))), Suc (n + i))"
  using assms
proof (induction k arbitrary: acc n i)
  case 0
  then show ?case by simp
next
  case (Suc k)
  obtain d t where e: "llm_extract lib client otxt hint n = ((d, t), Suc n)"
    by (metis llm_extract_count prod.collapse)
  from e have t: "t = snd (client n otxt hint)"
    using llm_extract_time [of lib client otxt hint n] by simp
  show ?case
  proof (cases i)
    case 0
    with Suc.prems(2) e have "document_type d \<noteq> lit ''unknown''"
      by (simp add: unresolved_def)
    with e t 0 show ?thesis by simp
  next
    case (Suc i')
    with Suc.prems(1) have first: "unresolved lib client otxt hint n"
      by (metis add.right_neutral zero_less_Suc)
    with e have d: "document_type d = lit ''unknown''" by (simp add: unresolved_def)
    from Suc.prems(1) Suc have rest: "\<forall>j<i'. unresolved lib client otxt hint (Suc n + j)"
      by (metis Suc_less_eq add_Suc_right add_Suc)
    from Suc.prems(2) Suc have res: "\<not> unresolved lib client otxt hint (Suc n + i')" by simp
    from Suc.prems(3) Suc have lt: "i' < k" by simp
    have "(\<Sum>j<Suc (Suc i'). snd (client (n + j) otxt hint))
          = snd (client n otxt hint) + (\<Sum>j<Suc i'. snd (client (Suc n + j) otxt hint))"
      by (simp add: sum.lessThan_Suc_shift del: sum.lessThan_Suc)
    with Suc.IH [OF rest res lt, of "acc + t"] e d t Suc show ?thesis
      by (simp add: add.assoc)
  qed
qed

lemma fence_search_empty_response:
  "re_search (fence_rx py_lib) empty_prescription_response
     = Some (empty_prescription_response, [],
             [(1, lit ''{\"document_type\":\"prescription\",\"medications\":[]}'')])"
  by (simp add: empty_prescription_response_def fence_rx_def lit_rx_def Opt_def re_match_def
      py_lib_simps ref_is_space_def lit_def)

lemma json_loads_empty_prescription:
  "ref_json_loads (lit ''{\"document_type\":\"prescription\",\"medications\":[]}'')
     = Inr (JObj [(lit ''document_type'', JStr (lit ''prescription'')),
                  (lit ''medications'', JArr [])])"
  by (simp add: ref_json_loads_def json_ws_def lit_def)

lemma extract_json_empty_response:
  "extract_json_from_response py_lib empty_prescription_response
     = Inr (JObj [(lit ''document_type'', JStr (lit ''prescription'')),
                  (lit ''medications'', JArr [])])"
  by (simp add: extract_json_from_response_def fence_search_empty_response group_def
      py_lib_simps json_loads_empty_prescription)

lemma validate_empty_prescription:
  "validate_ExtractedPrescription py_lib
      [(lit ''document_type'', JStr (lit ''prescription'')), (lit ''medications'', JArr [])]
     = Inr ExtractedPrescription_default"
  by (simp add: validate_ExtractedPrescription_def default_field_def optional_field_def
      default_model_def optional_model_def list_field_def unit_interval_field_def at_loc_def
      py_lib_simps ref_coerce_str_def ExtractedPrescription_default_def lit_def)

lemma construct_empty_prescription:
  "construct_ExtractedPrescription py_lib
      (JObj [(lit ''document_type'', JStr (lit ''prescription'')), (lit ''medications'', JArr [])])
     = Inr ExtractedPrescription_default"
  by (simp add: construct_ExtractedPrescription_def validate_empty_prescription)

lemma llm_extract_empty_response:
  "llm_extract py_lib (\<lambda>n otxt hint. (Inr empty_prescription_response, 1.5)) otxt hint n
     = ((ExtractedPrescription_default, 1.5), Suc n)"
  by (simp add: llm_extract_def extract_json_empty_response construct_empty_prescription)

lemma extract_from_image_count: "snd (extract_from_image lib v pth otxt oc n) = Suc n"
  by (simp add: extract_from_image_def Let_def split_def split: sum.splits json.splits)

lemma extract_from_image_failure:
  "fst (image_reply v n pth otxt oc) = Inl err \<Longrightarrow>
     extract_from_image lib v pth otxt oc n
       = ((failed_vision_document, snd (image_reply v n pth otxt oc)), Suc n)"
  by (simp add: extract_from_image_def Let_def split_def)

lemma signature_stage_other_calls:
  "text_calls (snd (signature_stage lib e pth p stages st)) = text_calls st"
  "vision_calls (snd (signature_stage lib e pth p stages st)) = vision_calls st"
  by (auto simp: signature_stage_def Let_def split_def split: option.splits)

lemma signature_stage_document_type:
  "document_type (fst (fst (signature_stage lib e pth p stages st))) = document_type p"
  by (auto simp: signature_stage_def Let_def split_def split: option.splits)

lemma signature_stage_medications:
  "medications (fst (fst (signature_stage lib e pth p stages st))) = medications p"
  by (auto simp: signature_stage_def Let_def split_def split: option.splits)

lemma extract_from_image_fails:
  "image_attempt_fails lib oc (image_reply v n pth otxt oc) \<Longrightarrow>
     extract_from_image lib v pth otxt oc n
       = ((failed_vision_document, snd (image_reply v n pth otxt oc)), Suc n)"
  by (auto simp: image_attempt_fails_def extract_from_image_def with_vision_metadata_def
      Let_def split_def split: sum.splits json.splits option.splits)

lemma primary_stage_text:
  assumes "choose_strategy fv c ptype (vision e) (llm_text e) = UseLLMText client"
  shows "\<exists>p1 md1 stages1. primary_stage lib e pth fv otxt c ptype md stages st
            = (Inr (p1, md1, stages1), st\<lparr>text_calls := Suc (text_calls st)\<rparr>)
          \<and> document_type p1 = document_type (fst (fst (llm_extract lib client otxt
                                     (Some (lit ''prescription'')) (text_calls st))))
          \<and> medications p1 = medications (fst (fst (llm_extract lib client otxt
                                     (Some (lit ''prescription'')) (text_calls st))))"
  using assms llm_extract_count [of lib client otxt "Some (lit ''prescription'')" "text_calls st"]
  by (simp add: primary_stage_def Let_def split_def)

lemma primary_stage_vision:
  assumes "choose_strategy fv c ptype (vision e) (llm_text e) = UseVision v"
  shows "\<exists>p1 md1 stages1. primary_stage lib e pth fv otxt c ptype md stages st
            = (Inr (p1, md1, stages1), st\<lparr>vision_calls := Suc (vision_calls st)\<rparr>)
          \<and> document_type p1 = document_type (fst (fst (extract_from_image lib v pth
                                     (Some otxt) (Some c) (vision_calls st))))
          \<and> medications p1 = medications (fst (fst (extract_from_image lib v pth
                                     (Some otxt) (Some c) (vision_calls st))))"
  using assms extract_from_image_count [of lib v pth "Some otxt" "Some c" "vision_calls st"]
  by (simp add: primary_stage_def Let_def split_def)

lemma process_text_tier:
  assumes "ocr_extract_with_fallback e (path_str lib path) = Inr (otxt, c, t)"
    and "choose_strategy fv c (classify_prescription_type lib path c) (vision e) (llm_text e)
           = UseLLMText client"
  shows "\<exists>p md st'. process lib e path fv st = (Inr (p, md), st')
          \<and> text_calls st' = text_calls st + 1
          \<and> document_type p = document_type (fst (fst (llm_extract lib client otxt
                                     (Some (lit ''prescription'')) (text_calls st))))
          \<and> medications p = medications (fst (fst (llm_extract lib client otxt
                                     (Some (lit ''prescription'')) (text_calls st))))"
proof -
  from primary_stage_text [OF assms(2)] obtain p1 md1 stages1 where
    pr: "primary_stage lib e (path_str lib path) fv otxt c (classify_prescription_type lib path c)
           (initial_metadata lib path) [OcrStage t c (length otxt)] st
         = (Inr (p1, md1, stages1), st\<lparr>text_calls := Suc (text_calls st)\<rparr>)"
    and d: "document_type p1 = document_type (fst (fst (llm_extract lib client otxt
                                     (Some (lit ''prescription'')) (text_calls st))))"
    and m: "medications p1 = medications (fst (fst (llm_extract lib client otxt
                                     (Some (lit ''prescription'')) (text_calls st))))"
    by blast
  from process_after_primary [OF assms(1) pr] d m show ?thesis
    by (auto simp: signature_stage_other_calls signature_stage_document_type
        signature_stage_medications)
qed

lemma process_image_tier:
  assumes "ocr_extract_with_fallback e (path_str lib path) = Inr (otxt, c, t)"
    and "choose_strategy fv c (classify_prescription_type lib path c) (vision e) (llm_text e)
           = UseVision v"
  shows "\<exists>p md st'. process lib e path fv st = (Inr (p, md), st')
          \<and> vision_calls st' = vision_calls st + 1
          \<and> document_type p = document_type (fst (fst (extract_from_image lib v (path_str lib path)
                                     (Some otxt) (Some c) (vision_calls st))))
          \<and> medications p = medications (fst (fst (extract_from_image lib v (path_str lib path)
                                     (Some otxt) (Some c) (vision_calls st))))"
proof -
  from primary_stage_vision [OF assms(2)] obtain p1 md1 stages1 where
    pr: "primary_stage lib e (path_str lib path) fv otxt c (classify_prescription_type lib path c)
           (initial_metadata lib path) [OcrStage t c (length otxt)] st
         = (Inr (p1, md1, stages1), st\<lparr>vision_calls := Suc (vision_calls st)\<rparr>)"
    and d: "document_type p1 = document_type (fst (fst (extract_from_image lib v (path_str lib path)
                                     (Some otxt) (Some c) (vision_calls st))))"
    and m: "medications p1 = medications (fst (fst (extract_from_image lib v (path_str lib path)
                                     (Some otxt) (Some c) (vision_calls st))))"
    by blast
  from process_after_primary [OF assms(1) pr] d m show ?thesis
    by (auto simp: signature_stage_other_calls signature_stage_document_type
        signature_stage_medications)
qed

lemma failed_vision_document_facts:
  "document_type failed_vision_document = lit ''prescription''"
  "document_type failed_vision_document \<noteq> lit ''unknown''"
  "medications failed_vision_document = []"
  "doctor_signature failed_vision_document = None"
  by (simp_all add: failed_vision_document_def ExtractedPrescription_default_def lit_def)

lemma process_text_tier_failure:
  assumes "ocr_extract_with_fallback e (path_str lib path) = Inr (otxt, c, t)"
    and "choose_strategy fv c (classify_prescription_type lib path c) (vision e) (llm_text e)
           = UseLLMText client"
  shows "\<exists>p md st'. process lib e path fv st = (Inr (p, md), st')
          \<and> text_calls st' = text_calls st + 1
          \<and> (extraction_attempt_fails lib (client (text_calls st) otxt (Some (lit ''prescription'')))
                \<longrightarrow> document_type p = lit ''unknown'' \<and> medications p = [])"
proof -
  from process_text_tier [OF assms, of st] obtain p md st' where
    pr: "process lib e path fv st = (Inr (p, md), st')"
    and c: "text_calls st' = text_calls st + 1"
    and d: "document_type p = document_type (fst (fst (llm_extract lib client otxt
                                     (Some (lit ''prescription'')) (text_calls st))))"
    and m: "medications p = medications (fst (fst (llm_extract lib client otxt
                                     (Some (lit ''prescription'')) (text_calls st))))"
    by blast
  have "extraction_attempt_fails lib (client (text_calls st) otxt (Some (lit ''prescription'')))
          \<longrightarrow> document_type p = lit ''unknown'' \<and> medications p = []"
    using d m by (simp add: llm_extract_failure unknown_document_facts)
  with pr c show ?thesis by blast
qed

lemma process_image_tier_failure:
  assumes "ocr_extract_with_fallback e (path_str lib path) = Inr (otxt, c, t)"
    and "choose_strategy fv c (classify_prescription_type lib path c) (vision e) (llm_text e)
           = UseVision v"
  shows "\<exists>p md st'. process lib e path fv st = (Inr (p, md), st')
          \<and> vision_calls st' = vision_calls st + 1
          \<and> (image_attempt_fails lib (Some c)
                 (image_reply v (vision_calls st) (path_str lib path) (Some otxt) (Some c))
                \<longrightarrow> document_type p = lit ''prescription'' \<and> medications p = [])"
proof -
  from process_image_tier [OF assms, of st] obtain p md st' where
    pr: "process lib e path fv st = (Inr (p, md), st')"
    and c: "vision_calls st' = vision_calls st + 1"
    and d: "document_type p = document_type (fst (fst (extract_from_image lib v (path_str lib path)
                                     (Some otxt) (Some c) (vision_calls st))))"
    and m: "medications p = medications (fst (fst (extract_from_image lib v (path_str lib path)
                                     (Some otxt) (Some c) (vision_calls st))))"
    by blast
  have "image_attempt_fails lib (Some c)
                 (image_reply v (vision_calls st) (path_str lib path) (Some otxt) (Some c))
          \<longrightarrow> document_type p = lit ''prescription'' \<and> medications p = []"
    using d m by (simp add: extract_from_image_fails failed_vision_document_facts)
  with pr c show ?thesis by blast
qed

text \<open>
  Claim C2 (amended). The retry loop is \<^verbatim>\<open>LLMExtractor.extract_with_retry\<close>: with
  two retries and three failing attempts it makes exactly three attempts and returns the
  minimal record (document type "unknown", no medication, no signature) with the sum of
  the three times; an attempt with a resolved document type ends the loop at once, with
  that attempt's document and the time accumulated so far. The orchestrator does not
  call the loop: in the text tier it makes one attempt with \<^verbatim>\<open>extract\<close>, and an
  attempt that fails in any of the three ways (a raised call, no JSON in the response, a
  value rejected by the schema) gives the "unknown" record; in the image tier it makes
  one attempt with \<^verbatim>\<open>extract_from_image\<close>, and an attempt that fails in any of
  the three ways gives a record of document type "prescription" without medication or
  signature. All of these return a record: no error leaves the stage.
\<close>

theorem retry_loop_and_single_attempts:
  "((\<forall>j<3. extraction_attempt_fails lib (client (n + j) otxt hint)) \<longrightarrow>
       extract_with_retry lib client otxt hint 2 n
         = ((unknown_document,
             snd (client n otxt hint) + snd (client (n + 1) otxt hint)
               + snd (client (n + 2) otxt hint)), n + 3))
   \<and> document_type unknown_document = lit ''unknown''
   \<and> medications unknown_document = []
   \<and> doctor_signature unknown_document = None
   \<and> ((\<forall>j<i. unresolved lib client otxt hint (n + j))
        \<and> \<not> unresolved lib client otxt hint (n + i) \<and> int i \<le> max_retries \<longrightarrow>
       extract_with_retry lib client otxt hint max_retries n
         = ((fst (fst (llm_extract lib client otxt hint (n + i))),
             (\<Sum>j<Suc i. snd (client (n + j) otxt hint))), n + i + 1))
   \<and> (ocr_extract_with_fallback e (path_str lib path) = Inr (otxt, c, t)
        \<and> choose_strategy fv c (classify_prescription_type lib path c) (vision e) (llm_text e)
             = UseLLMText client \<longrightarrow>
       (\<exists>p md st'. process lib e path fv st = (Inr (p, md), st')
          \<and> text_calls st' = text_calls st + 1
          \<and> document_type p = document_type (fst (fst (llm_extract lib client otxt
                                     (Some (lit ''prescription'')) (text_calls st))))))
   \<and> (ocr_extract_with_fallback e (path_str lib path) = Inr (otxt, c, t)
        \<and> choose_strategy fv c (classify_prescription_type lib path c) (vision e) (llm_text e)
             = UseVision v \<longrightarrow>
       (\<exists>p md st'. process lib e path fv st = (Inr (p, md), st')
          \<and> vision_calls st' = vision_calls st + 1
          \<and> document_type p = document_type (fst (fst (extract_from_image lib v (path_str lib path)
                                     (Some otxt) (Some c) (vision_calls st))))))
   \<and> (extraction_attempt_fails lib (client n otxt hint) \<longrightarrow>
         llm_extract lib client otxt hint n
           = ((unknown_document, snd (client n otxt hint)), Suc n))
   \<and> (\<forall>pth oc. image_attempt_fails lib oc (image_reply v n pth (Some otxt) oc) \<longrightarrow>
         extract_from_image lib v pth (Some otxt) oc n
           = ((failed_vision_document, snd (image_reply v n pth (Some otxt) oc)), Suc n))
   \<and> document_type failed_vision_document = lit ''prescription''
   \<and> medications failed_vision_document = []
   \<and> doctor_signature failed_vision_document = None
   \<and> (ocr_extract_with_fallback e (path_str lib path) = Inr (otxt, c, t)
        \<and> choose_strategy fv c (classify_prescription_type lib path c) (vision e) (llm_text e)
             = UseLLMText client \<longrightarrow>
       (\<exists>p md st'. process lib e path fv st = (Inr (p, md), st')
          \<and> text_calls st' = text_calls st + 1
          \<and> (extraction_attempt_fails lib (client (text_calls st) otxt (Some (lit ''prescription'')))
                \<longrightarrow> document_type p = lit ''unknown'' \<and> medications p = [])))
   \<and> (ocr_extract_with_fallback e (path_str lib path) = Inr (otxt, c, t)
        \<and> choose_strategy fv c (classify_prescription_type lib path c) (vision e) (llm_text e)
             = UseVision v \<longrightarrow>
       (\<exists>p md st'. process lib e path fv st = (Inr (p, md), st')
          \<and> vision_calls st' = vision_calls st + 1
          \<and> (image_attempt_fails lib (Some c)
                 (image_reply v (vision_calls st) (path_str lib path) (Some otxt) (Some c))
                \<longrightarrow> document_type p = lit ''prescription'' \<and> medications p = [])))"
proof -
  have three: "(\<forall>j<3. extraction_attempt_fails lib (client (n + j) otxt hint)) \<longrightarrow>
       extract_with_retry lib client otxt hint 2 n
         = ((unknown_document,
             snd (client n otxt hint) + snd (client (n + 1) otxt hint)
               + snd (client (n + 2) otxt hint)), n + 3)"
  proof
    assume a: "\<forall>j<3. extraction_attempt_fails lib (client (n + j) otxt hint)"
    then have "\<forall>j<3. unresolved lib client otxt hint (n + j)"
      by (simp add: failure_unresolved)
    from retry_all_unresolved [OF this, of 0]
    show "extract_with_retry lib client otxt hint 2 n
         = ((unknown_document,
             snd (client n otxt hint) + snd (client (n + 1) otxt hint)
               + snd (client (n + 2) otxt hint)), n + 3)"
      by (simp add: extract_with_retry_def numeral_3_eq_3 lessThan_Suc)
  qed
  have resolved: "(\<forall>j<i. unresolved lib client otxt hint (n + j))
        \<and> \<not> unresolved lib client otxt hint (n + i) \<and> int i \<le> max_retries \<longrightarrow>
       extract_with_retry lib client otxt hint max_retries n
         = ((fst (fst (llm_extract lib client otxt hint (n + i))),
             (\<Sum>j<Suc i. snd (client (n + j) otxt hint))), n + i + 1)"
  proof
    assume a: "(\<forall>j<i. unresolved lib client otxt hint (n + j))
        \<and> \<not> unresolved lib client otxt hint (n + i) \<and> int i \<le> max_retries"
    then have lt: "i < nat (max_retries + 1)" by linarith
    from a retry_resolves [of i lib client otxt hint n "nat (max_retries + 1)" 0] lt
    show "extract_with_retry lib client otxt hint max_retries n
         = ((fst (fst (llm_extract lib client otxt hint (n + i))),
             (\<Sum>j<Suc i. snd (client (n + j) otxt hint))), n + i + 1)"
      by (simp add: extract_with_retry_def)
  qed
  have text_tier: "ocr_extract_with_fallback e (path_str lib path) = Inr (otxt, c, t)
        \<and> choose_strategy fv c (classify_prescription_type lib path c) (vision e) (llm_text e)
             = UseLLMText client \<longrightarrow>
       (\<exists>p md st'. process lib e path fv st = (Inr (p, md), st')
          \<and> text_calls st' = text_calls st + 1
          \<and> document_type p = document_type (fst (fst (llm_extract lib client otxt
                                     (Some (lit ''prescription'')) (text_calls st)))))"
    using process_text_tier [of e lib path otxt c t fv client st] by blast
  have image_tier: "ocr_extract_with_fallback e (path_str lib path) = Inr (otxt, c, t)
        \<and> choose_strategy fv c (classify_prescription_type lib path c) (vision e) (llm_text e)
             = UseVision v \<longrightarrow>
       (\<exists>p md st'. process lib e path fv st = (Inr (p, md), st')
          \<and> vision_calls st' = vision_calls st + 1
          \<and> document_type p = document_type (fst (fst (extract_from_image lib v (path_str lib path)
                                     (Some otxt) (Some c) (vision_calls st)))))"
    using process_image_tier [of e lib path otxt c t fv v st] by blast
  have fail1: "extraction_attempt_fails lib (client n otxt hint) \<longrightarrow>
         llm_extract lib client otxt hint n
           = ((unknown_document, snd (client n otxt hint)), Suc n)"
    by (simp add: llm_extract_failure)
  have fail2: "\<forall>pth oc. image_attempt_fails lib oc (image_reply v n pth (Some otxt) oc) \<longrightarrow>
         extract_from_image lib v pth (Some otxt) oc n
           = ((failed_vision_document, snd (image_reply v n pth (Some otxt) oc)), Suc n)"
    by (simp add: extract_from_image_fails)
  have text_fail: "ocr_extract_with_fallback e (path_str lib path) = Inr (otxt, c, t)
        \<and> choose_strategy fv c (classify_prescription_type lib path c) (vision e) (llm_text e)
             = UseLLMText client \<longrightarrow>
       (\<exists>p md st'. process lib e path fv st = (Inr (p, md), st')
          \<and> text_calls st' = text_calls st + 1
          \<and> (extraction_attempt_fails lib (client (text_calls st) otxt (Some (lit ''prescription'')))
                \<longrightarrow> document_type p = lit ''unknown'' \<and> medications p = []))"
    using process_text_tier_failure [of e lib path otxt c t fv client st] by blast
  have image_fail: "ocr_extract_with_fallback e (path_str lib path) = Inr (otxt, c, t)
        \<and> choose_strategy fv c (classify_prescription_type lib path c) (vision e) (llm_text e)
             = UseVision v \<longrightarrow>
       (\<exists>p md st'. process lib e path fv st = (Inr (p, md), st')
          \<and> vision_calls st' = vision_calls st + 1
          \<and> (image_attempt_fails lib (Some c)
                 (image_reply v (vision_calls st) (path_str lib path) (Some otxt) (Some c))
                \<longrightarrow> document_type p = lit ''prescription'' \<and> medications p = []))"
    using process_image_tier_failure [of e lib path otxt c t fv v st] by blast
  from three unknown_document_facts resolved text_tier image_tier fail1 fail2
    failed_vision_document_facts(1,3,4) text_fail image_fail
  show ?thesis
    apply -
    apply (intro conjI)
                apply assumption+
    done
qed

lemma env_text_failing_simps:
  "ocr_extract_with_fallback env_text_failing = demo_ocr" "vision env_text_failing = None"
  "llm_text env_text_failing = Some failing_text_client"
  by (simp_all add: env_text_failing_def)

lemma strategy_text_failing:
  "choose_strategy False 0.8 (classify_prescription_type py_lib (lit ''scans/blank.png'') 0.8)
       (vision env_text_failing) (llm_text env_text_failing) = UseLLMText failing_text_client"
  by (simp add: classify_blank env_text_failing_simps choose_strategy_def
      needs_vision_enhancement_def HANDWRITING_CONFIDENCE_THRESHOLD_def lit_def)

lemma strategy_vision_forced:
  "choose_strategy True 0.8 (classify_prescription_type py_lib (lit ''scans/blank.png'') 0.8)
       (vision env_vision_failing) (llm_text env_vision_failing) = UseVision failing_vision_client"
  by (simp add: env_vision_failing_simps choose_strategy_def)

lemma failing_text_client_fails:
  "extraction_attempt_fails py_lib (failing_text_client n otxt hint)"
  by (simp add: extraction_attempt_fails_def failing_text_client_def)

theorem retry_loop_and_single_attempts_witness:
  "extract_with_retry py_lib failing_text_client [] (Some (lit ''prescription'')) 2 0
     = ((unknown_document, 6), 3)
   \<and> extract_with_retry py_lib (\<lambda>n otxt hint. (Inr empty_prescription_response, 1.5)) [] None 2 0
     = ((ExtractedPrescription_default, 1.5), 1)
   \<and> (case process py_lib env_text_failing (lit ''scans/blank.png'') False calls0 of
        (Inl err, st') \<Rightarrow> False
      | (Inr (p, md), st') \<Rightarrow> text_calls st' = 1 \<and> document_type p = lit ''unknown'')"
proof -
  let ?ok = "\<lambda>(n::nat) (otxt::pystr) (hint::pystr option). (Inr empty_prescription_response :: exn + pystr, 1.5::real)"
  let ?path = "lit ''scans/blank.png''"
  have a: "extract_with_retry py_lib failing_text_client [] (Some (lit ''prescription'')) 2 0
     = ((unknown_document, 6), 3)"
    using retry_loop_and_single_attempts
      [of py_lib failing_text_client 0 "[]" "Some (lit ''prescription'')"]
      failing_text_client_fails
    by (simp add: failing_text_client_def)
  have r: "\<not> unresolved py_lib ?ok [] None 0"
    using llm_extract_empty_response [of "[]" None 0]
    by (simp add: unresolved_def ExtractedPrescription_default_def lit_def)
  have b: "extract_with_retry py_lib ?ok [] None 2 0 = ((ExtractedPrescription_default, 1.5), 1)"
    using retry_loop_and_single_attempts [of py_lib ?ok 0 "[]" None 0 2] r
      llm_extract_empty_response [of "[]" None 0]
    by simp
  have o: "ocr_extract_with_fallback env_text_failing (path_str py_lib ?path) = Inr ([], 0.8, 0.25)"
    by (simp add: env_text_failing_simps py_lib_simps ref_path_str_blank demo_ocr_blank)
  from retry_loop_and_single_attempts
      [of py_lib failing_text_client 0 "[]" "Some (lit ''prescription'')" 0 2
          env_text_failing ?path "0.8" "0.25" False calls0]
    o strategy_text_failing
  obtain p md st' where
    pr: "process py_lib env_text_failing ?path False calls0 = (Inr (p, md), st')"
    and c: "text_calls st' = text_calls calls0 + 1"
    and d: "document_type p = document_type (fst (fst (llm_extract py_lib failing_text_client []
                                     (Some (lit ''prescription'')) (text_calls calls0))))"
    by blast
  from d have d': "document_type p = lit ''unknown''"
    by (simp add: llm_extract_failure failing_text_client_fails unknown_document_facts)
  from pr c d' have cc: "(case process py_lib env_text_failing ?path False calls0 of
        (Inl err, st') \<Rightarrow> False
      | (Inr (p, md), st') \<Rightarrow> text_calls st' = 1 \<and> document_type p = lit ''unknown'')"
    by (simp add: calls0_def)
  from a b cc show ?thesis by blast
qed

theorem orchestrator_single_attempt_counterexample:
  "text_calls (snd (process py_lib env_text_failing (lit ''scans/blank.png'') False calls0)) = 1
   \<and> vision_calls (snd (process py_lib env_vision_failing (lit ''scans/blank.png'') True calls0)) = 1
   \<and> (case fst (process py_lib env_vision_failing (lit ''scans/blank.png'') True calls0) of
        Inl err \<Rightarrow> False
      | Inr (p, md) \<Rightarrow>
          document_type p = lit ''prescription'' \<and> document_type p \<noteq> lit ''unknown'')"
proof -
  let ?path = "lit ''scans/blank.png''"
  have o1: "ocr_extract_with_fallback env_text_failing (path_str py_lib ?path) = Inr ([], 0.8, 0.25)"
    by (simp add: env_text_failing_simps py_lib_simps ref_path_str_blank demo_ocr_blank)
  have o2: "ocr_extract_with_fallback env_vision_failing (path_str py_lib ?path) = Inr ([], 0.8, 0.25)"
    by (simp add: env_vision_failing_simps py_lib_simps ref_path_str_blank demo_ocr_blank)
  from process_text_tier [OF o1 strategy_text_failing, of calls0]
  have a: "text_calls (snd (process py_lib env_text_failing ?path False calls0)) = 1"
    by (auto simp: calls0_def)
  from process_image_tier [OF o2 strategy_vision_forced, of calls0]
  obtain p md st' where
    pr: "process py_lib env_vision_failing ?path True calls0 = (Inr (p, md), st')"
    and c: "vision_calls st' = vision_calls calls0 + 1"
    and d: "document_type p = document_type (fst (fst (extract_from_image py_lib failing_vision_client
                (path_str py_lib ?path) (Some []) (Some 0.8) (vision_calls calls0))))"
    by blast
  have "fst (image_reply failing_vision_client (vision_calls calls0) (path_str py_lib ?path)
          (Some []) (Some 0.8)) = Inl (RemoteCallFailed (lit ''service unavailable''))"
    by (simp add: failing_vision_client_def)
  from extract_from_image_failure [OF this] d
  have d': "document_type p = lit ''prescription''"
    by (simp add: failed_vision_document_def ExtractedPrescription_default_def)
  from pr c d' a show ?thesis
    by (simp add: calls0_def lit_def)
qed

lemma unit_interval_field_ok:
  "unit_interval_field lib k d = Inr x \<Longrightarrow> unit_ok x"
  by (auto simp: unit_interval_field_def unit_ok_def split: sum.splits option.splits if_splits)

lemma unit_interval_field_projr:
  "\<not> isl (unit_interval_field lib k d) \<Longrightarrow> unit_ok (projr (unit_interval_field lib k d))"
  by (cases "unit_interval_field lib k d") (auto dest: unit_interval_field_ok)

lemma validate_SignatureInfo_ok:
  "validate_SignatureInfo lib d = Inr s \<Longrightarrow> unit_ok (confidence s)"
  by (auto simp: validate_SignatureInfo_def Let_def unit_interval_field_projr split: if_splits)

lemma at_loc_Inr: "at_loc l r = Inr x \<longleftrightarrow> r = Inr x"
  by (cases r) (simp_all add: at_loc_def)

lemma model_item_Inr: "model_item f v = Inr x \<Longrightarrow> \<exists>d. f d = Inr x"
  by (cases v) (auto simp: model_item_def)

lemma optional_model_Inr:
  "optional_model f k d = Inr (Some x) \<Longrightarrow> \<exists>d'. f d' = Inr x"
  by (auto simp: optional_model_def at_loc_Inr split: option.splits json.splits sum.splits
      dest: model_item_Inr)

lemma default_model_Inr:
  "default_model f k dflt d = Inr x \<Longrightarrow> x = dflt \<or> (\<exists>d'. f d' = Inr x)"
  by (auto simp: default_model_def at_loc_Inr split: option.splits dest: model_item_Inr)

lemma optional_signature_ok:
  "\<not> isl (optional_model (validate_SignatureInfo lib) k d)
     \<Longrightarrow> signature_ok (projr (optional_model (validate_SignatureInfo lib) k d))"
proof -
  assume "\<not> isl (optional_model (validate_SignatureInfo lib) k d)"
  then obtain x where x: "optional_model (validate_SignatureInfo lib) k d = Inr x"
    by (cases "optional_model (validate_SignatureInfo lib) k d") auto
  show ?thesis
  proof (cases x)
    case None
    with x show ?thesis by (simp add: signature_ok_def)
  next
    case (Some s)
    with x optional_model_Inr [of "validate_SignatureInfo lib" k d s]
    show ?thesis by (auto simp: signature_ok_def dest: validate_SignatureInfo_ok)
  qed
qed

lemma validate_DoctorInfo_ok:
  "validate_DoctorInfo lib d = Inr x \<Longrightarrow> signature_ok (doctor_info_signature x)"
  by (auto simp: validate_DoctorInfo_def Let_def optional_signature_ok split: if_splits)

lemma default_doctor_ok:
  "\<not> isl (default_model (validate_DoctorInfo lib) k DoctorInfo_default d)
     \<Longrightarrow> signature_ok (doctor_info_signature
           (projr (default_model (validate_DoctorInfo lib) k DoctorInfo_default d)))"
proof -
  assume "\<not> isl (default_model (validate_DoctorInfo lib) k DoctorInfo_default d)"
  then obtain x where x: "default_model (validate_DoctorInfo lib) k DoctorInfo_default d = Inr x"
    by (cases "default_model (validate_DoctorInfo lib) k DoctorInfo_default d") auto
  from default_model_Inr [OF x] show ?thesis
    using x by (auto simp: signature_ok_def DoctorInfo_default_def dest: validate_DoctorInfo_ok)
qed

lemma validate_HandwritingAnalysis_ok:
  "validate_HandwritingAnalysis lib d = Inr h \<Longrightarrow> unit_ok (handwriting_ocr_confidence h)"
  by (auto simp: validate_HandwritingAnalysis_def Let_def unit_interval_field_projr split: if_splits)

lemma optional_handwriting_ok:
  "\<not> isl (optional_model (validate_HandwritingAnalysis lib) k d)
     \<Longrightarrow> (case projr (optional_model (validate_HandwritingAnalysis lib) k d) of
            None \<Rightarrow> True
          | Some h \<Rightarrow> unit_ok (handwriting_ocr_confidence h))"
proof -
  assume "\<not> isl (optional_model (validate_HandwritingAnalysis lib) k d)"
  then obtain x where x: "optional_model (validate_HandwritingAnalysis lib) k d = Inr x"
    by (cases "optional_model (validate_HandwritingAnalysis lib) k d") auto
  show ?thesis
  proof (cases x)
    case None
    with x show ?thesis by simp
  next
    case (Some h)
    with x optional_model_Inr [of "validate_HandwritingAnalysis lib" k d h]
    show ?thesis by (auto dest: validate_HandwritingAnalysis_ok)
  qed
qed

lemma validate_ExtractedPrescription_ok:
  "validate_ExtractedPrescription lib d = Inr p \<Longrightarrow> confidences_ok p"
  unfolding validate_ExtractedPrescription_def Let_def
  by (simp split: if_splits)
    (auto simp: confidences_ok_def unit_interval_field_projr optional_signature_ok
      default_doctor_ok optional_handwriting_ok)


lemma construct_ExtractedPrescription_ok:
  "construct_ExtractedPrescription lib j = Inr p \<Longrightarrow> confidences_ok p"
  by (auto simp: construct_ExtractedPrescription_def split: json.splits sum.splits
      dest: validate_ExtractedPrescription_ok)

lemma construct_SignatureInfo_ok:
  "construct_SignatureInfo lib j = Inr s \<Longrightarrow> unit_ok (confidence s)"
  by (auto simp: construct_SignatureInfo_def split: json.splits sum.splits
      dest: validate_SignatureInfo_ok)

lemma extract_doctor_info_signature:
  "doctor_info_signature (extract_doctor_info lib otxt) = None"
  by (simp add: extract_doctor_info_def Let_def DoctorInfo_default_def split: option.splits)

lemma parse_fields:
  assumes "parse lib otxt c = Inr p"
  shows "confidence_score p = Some c" "ocr_confidence p = Some c" "0 \<le> c" "c \<le> 1"
    "doctor_signature p = None" "handwriting_analysis p = None"
    "doctor p = extract_doctor_info lib otxt"
proof -
  from assms have b: "0 \<le> c \<and> c \<le> 1"
    by (simp add: parse_def Let_def split: if_splits)
  with assms have p: "p = ExtractedPrescription_default
                \<lparr>document_type := lit ''prescription'',
                 prescription_type := Some (if c < 0.5 then lit ''handwritten''
                   else if c < 0.7 then lit ''mixed'' else lit ''printed''),
                 prescription_number := find_first_match lib otxt PRESCRIPTION_NUMBER_PATTERNS,
                 issue_date := find_first_match lib otxt DATE_PATTERNS,
                 patient := extract_patient_info lib otxt,
                 doctor := extract_doctor_info lib otxt,
                 hospital := extract_hospital_info lib otxt,
                 diagnosis := clean_text lib (find_first_match lib otxt DIAGNOSIS_PATTERNS),
                 medications := extract_medications lib otxt,
                 extraction_method := Some (lit ''ocr_only''),
                 confidence_score := Some c,
                 ocr_confidence := Some c,
                 llm_enhanced := False,
                 total_items := Some (int (length (extract_medications lib otxt))),
                 ocr_text := Some otxt\<rparr>"
    by (simp add: parse_def Let_def)
  from b show "0 \<le> c" "c \<le> 1" by simp_all
  show "confidence_score p = Some c" "ocr_confidence p = Some c"
    "doctor p = extract_doctor_info lib otxt"
    unfolding p by simp_all
  show "doctor_signature p = None" "handwriting_analysis p = None"
    unfolding p by (simp_all add: ExtractedPrescription_default_def)
qed

lemma parse_ok: "parse lib otxt c = Inr p \<Longrightarrow> confidences_ok p"
  using parse_fields [of lib otxt c p]
  by (simp add: confidences_ok_def unit_ok_def signature_ok_def extract_doctor_info_signature)

lemma default_records_ok:
  "confidences_ok ExtractedPrescription_default" "confidences_ok unknown_document"
  "confidences_ok failed_vision_document" "unit_ok (confidence SignatureInfo_default)"
  by (simp_all add: confidences_ok_def unit_ok_def signature_ok_def unknown_document_def
      failed_vision_document_def ExtractedPrescription_default_def DoctorInfo_default_def
      SignatureInfo_default_def)

lemma unit_interval_field_rejects:
  "map_of d (lit k) = Some v \<Longrightarrow> v \<noteq> JNull \<Longrightarrow> coerce_float lib v = Some x
     \<Longrightarrow> x < 0 \<or> 1 < x \<Longrightarrow> unit_interval_field lib k d = Inl [[Key k]]"
  by (cases v) (auto simp: unit_interval_field_def optional_field_def)

lemma validate_rejects_confidence_score:
  assumes "unit_interval_field lib ''confidence_score'' d = Inl [[Key ''confidence_score'']]"
  shows "\<exists>es. validate_ExtractedPrescription lib d = Inl es \<and> [Key ''confidence_score''] \<in> set es"
  using assms unfolding validate_ExtractedPrescription_def Let_def
  by (simp add: errors_of_def)

lemma validate_medications_absent:
  "validate_ExtractedPrescription lib d = Inr p \<Longrightarrow> map_of d (lit ''medications'') = None
     \<Longrightarrow> medications p = []"
  unfolding validate_ExtractedPrescription_def Let_def
  by (auto simp: list_field_def split: if_splits)

lemma validate_medications_null:
  "map_of d (lit ''medications'') = Some JNull \<Longrightarrow> isl (validate_ExtractedPrescription lib d)"
  unfolding validate_ExtractedPrescription_def Let_def
  by (simp add: list_field_def)

text \<open>
  Claim C6. Every record that a constructor of the schema returns has each of its
  confidence fields absent or in the closed interval from 0 to 1: the record built from a
  parsed response (\<^const>\<open>construct_ExtractedPrescription\<close>), the signature built from a parsed
  response (\<^const>\<open>construct_SignatureInfo\<close>), the record built by the local structurer
  (\<^const>\<open>parse\<close>, which passes the measured confidence to the constructor), and the records
  built from defaults only. The list of medications of a record is a list in every case:
  a response without the key gives the empty list, and a response whose value for the key
  is null is refused with a validation error. A response whose \<^verbatim>\<open>confidence_score\<close> converts
  to a number below 0 or above 1 (1.5 for one) is refused with a validation error that
  names the field, and no record is produced. The statement is about construction: the
  assignment \<^verbatim>\<open>prescription.ocr_confidence = ocr_confidence\<close> of the orchestrator is made
  on a record already built and stores the value measured by the text recognition as it is.
\<close>

theorem constructed_records_keep_confidence_bounds:
  "(construct_ExtractedPrescription lib j = Inr p \<longrightarrow> confidences_ok p)
   \<and> (construct_SignatureInfo lib j = Inr s \<longrightarrow> unit_ok (confidence s))
   \<and> (parse lib otxt c = Inr p \<longrightarrow> confidences_ok p)
   \<and> confidences_ok ExtractedPrescription_default
   \<and> confidences_ok unknown_document
   \<and> confidences_ok failed_vision_document
   \<and> unit_ok (confidence SignatureInfo_default)
   \<and> (construct_ExtractedPrescription lib (JObj d) = Inr p
        \<and> map_of d (lit ''medications'') = None \<longrightarrow> medications p = [])
   \<and> (map_of d (lit ''medications'') = Some JNull \<longrightarrow>
        (\<exists>es. construct_ExtractedPrescription lib (JObj d) = Inl (ValidationError es)))
   \<and> (map_of d (lit ''confidence_score'') = Some v \<and> v \<noteq> JNull
        \<and> coerce_float lib v = Some x \<and> (x < 0 \<or> 1 < x) \<longrightarrow>
        (\<exists>es. construct_ExtractedPrescription lib (JObj d) = Inl (ValidationError es)
              \<and> [Key ''confidence_score''] \<in> set es))"
proof -
  have absent: "construct_ExtractedPrescription lib (JObj d) = Inr p
        \<and> map_of d (lit ''medications'') = None \<longrightarrow> medications p = []"
    by (auto simp: construct_ExtractedPrescription_def split: sum.splits
        dest: validate_medications_absent)
  have null: "map_of d (lit ''medications'') = Some JNull \<longrightarrow>
        (\<exists>es. construct_ExtractedPrescription lib (JObj d) = Inl (ValidationError es))"
    using validate_medications_null [of d lib]
    by (auto simp: construct_ExtractedPrescription_def split: sum.splits)
  have rejects: "map_of d (lit ''confidence_score'') = Some v \<and> v \<noteq> JNull
        \<and> coerce_float lib v = Some x \<and> (x < 0 \<or> 1 < x) \<longrightarrow>
        (\<exists>es. construct_ExtractedPrescription lib (JObj d) = Inl (ValidationError es)
              \<and> [Key ''confidence_score''] \<in> set es)"
  proof
    assume a: "map_of d (lit ''confidence_score'') = Some v \<and> v \<noteq> JNull
        \<and> coerce_float lib v = Some x \<and> (x < 0 \<or> 1 < x)"
    then have "unit_interval_field lib ''confidence_score'' d = Inl [[Key ''confidence_score'']]"
      by (intro unit_interval_field_rejects) auto
    from validate_rejects_confidence_score [OF this]
    show "\<exists>es. construct_ExtractedPrescription lib (JObj d) = Inl (ValidationError es)
              \<and> [Key ''confidence_score''] \<in> set es"
      by (auto simp: construct_ExtractedPrescription_def)
  qed
  have c1: "construct_ExtractedPrescription lib j = Inr p \<longrightarrow> confidences_ok p"
    by (rule impI) (rule construct_ExtractedPrescription_ok)
  have c2: "construct_SignatureInfo lib j = Inr s \<longrightarrow> unit_ok (confidence s)"
    by (rule impI) (rule construct_SignatureInfo_ok)
  have c3: "parse lib otxt c = Inr p \<longrightarrow> confidences_ok p"
    by (rule impI) (rule parse_ok)
  from c1 c2 c3 default_records_ok absent null rejects show ?thesis
    apply -
    apply (intro conjI)
             apply assumption+
    done
qed

lemma json_number_one_and_half: "json_number (lit ''1.5}'') = Some (JFloat 1.5, lit ''}'')"
  by (simp add: json_number_def digits_val_def ref_is_digit_def lit_def Let_def)

lemma json_loads_confidence:
  "ref_json_loads (lit ''{\"confidence_score\": 1.5}'')
     = Inr (JObj [(lit ''confidence_score'', JFloat 1.5)])"
  using json_number_one_and_half
  by (simp add: ref_json_loads_def json_ws_def lit_def)


theorem constructed_records_keep_confidence_bounds_witness:
  "ref_json_loads (lit ''{\"confidence_score\": 1.5}'')
     = Inr (JObj [(lit ''confidence_score'', JFloat 1.5)])
   \<and> (\<exists>es. construct_ExtractedPrescription py_lib (JObj [(lit ''confidence_score'', JFloat 1.5)])
             = Inl (ValidationError es) \<and> [Key ''confidence_score''] \<in> set es)
   \<and> construct_ExtractedPrescription py_lib
        (JObj [(lit ''document_type'', JStr (lit ''prescription'')), (lit ''medications'', JArr [])])
       = Inr ExtractedPrescription_default
   \<and> confidences_ok ExtractedPrescription_default
   \<and> medications ExtractedPrescription_default = []"
proof -
  let ?d = "[(lit ''confidence_score'', JFloat 1.5)]"
  let ?j = "JObj [(lit ''document_type'', JStr (lit ''prescription'')), (lit ''medications'', JArr [])]"
  have h: "map_of ?d (lit ''confidence_score'') = Some (JFloat 1.5) \<and> JFloat 1.5 \<noteq> JNull
        \<and> coerce_float py_lib (JFloat 1.5) = Some 1.5 \<and> ((1.5::real) < 0 \<or> 1 < (1.5::real))"
    by (simp add: py_lib_simps ref_coerce_float_def)
  note t = constructed_records_keep_confidence_bounds
    [of py_lib ?j ExtractedPrescription_default SignatureInfo_default "[]" 0 ?d "JFloat 1.5" "1.5"]
  note imp = t [THEN conjunct2, THEN conjunct2, THEN conjunct2, THEN conjunct2, THEN conjunct2,
    THEN conjunct2, THEN conjunct2, THEN conjunct2, THEN conjunct2]
  note imp2 = t [THEN conjunct1]
  note rej = mp [OF imp h]
  note ok = mp [OF imp2 construct_empty_prescription]
  from json_loads_confidence rej construct_empty_prescription ok default_record_facts(3)
  show ?thesis
    apply -
    apply (intro conjI)
        apply assumption+
    done
qed

end
